theory Spec2Isabelle
  imports Main
begin

chapter \<open>The research-assistant backend\<close>

text \<open>
  An Express server with five \<open>POST\<close> routes that forward a request to a chat-completion
  API and shape its reply (\<open>/api/search\<close>, \<open>/api/extract\<close>, \<open>/api/insight\<close>,
  \<open>/api/populate_form\<close>, \<open>/api/chat\<close>) and a \<open>GET /\<close> route. The repository has the server
  twice, as \<open>src/server.js\<close> and as \<open>src/unnamed/part_000\<close>. Each handler is a function from
  what it reads (the body of the request, the environment, the clock, the upstream API)
  to the requests it sends upstream and its response; what the language runtime does for
  the handlers (truthiness, property access, \<open>ToString\<close>, \<open>String.prototype.replace\<close> and
  \<open>trim\<close>, \<open>JSON.parse\<close>) is defined first. Calls to \<open>console\<close> inside the handlers are
  left out.
\<close>

section \<open>JavaScript values\<close>

text \<open>
  A JavaScript string is a sequence of UTF-16 code units; \<open>length\<close>, \<open>substring\<close>,
  \<open>trim\<close> and the regular expressions of the source all count code units. The source's
  string constants are ASCII and are written \<open>str ''...''\<close>.
\<close>

type_synonym jsstring = "nat list"

definition str :: "string \<Rightarrow> jsstring" where
  "str s = map of_char s"

text \<open>
  Every value the handlers touch comes out of \<open>JSON.parse\<close> (the request body, parsed by
  \<open>express.json()\<close>; the upstream reply, parsed by \<open>response.json()\<close>; the model's text,
  parsed by the handlers themselves). A number \<open>JNum m e\<close> is the double nearest to
  \<open>m * 10^e\<close>, the value of its decimal lexeme. An object lists its own properties in
  property order. The value \<open>undefined\<close> of a missing property is \<open>None\<close>.
\<close>

datatype json =
    JNull
  | JBool bool
  | JNum int int
  | JStr jsstring
  | JArr "json list"
  | JObj "(jsstring \<times> json) list"

text \<open>
  A decimal rounds to the double zero when it is at most half the least subnormal,
  \<open>2^-1075\<close> (the tie goes to the even neighbour, zero).
\<close>

definition rounds_to_zero :: "int \<Rightarrow> int \<Rightarrow> bool" where
  "rounds_to_zero m e = (m = 0 \<or> (e < 0 \<and> \<bar>m\<bar> * 2 ^ 1075 \<le> 10 ^ nat (- e)))"

text \<open>\<open>ToBoolean\<close>: what \<open>!x\<close>, \<open>x && y\<close> and \<open>x || y\<close> test.\<close>

fun truthy :: "json \<Rightarrow> bool" where
  "truthy JNull = False"
| "truthy (JBool b) = b"
| "truthy (JNum m e) = (\<not> rounds_to_zero m e)"
| "truthy (JStr s) = (s \<noteq> [])"
| "truthy (JArr xs) = True"
| "truthy (JObj kvs) = True"

text \<open>
  A decimal rounds to \<open>Infinity\<close> (or \<open>-Infinity\<close>) when its magnitude is at least
  \<open>2^1024 - 2^970\<close>, halfway between the greatest double and \<open>2^1024\<close> (the tie goes to the
  even neighbour, which is \<open>2^1024\<close>). Such a number is truthy like any other that is not
  zero.
\<close>

definition overflows :: "int \<Rightarrow> int \<Rightarrow> bool" where
  "overflows m e =
     (if 0 \<le> e then 2 ^ 1024 - 2 ^ 970 \<le> \<bar>m\<bar> * 10 ^ nat e
      else (2 ^ 1024 - 2 ^ 970) * 10 ^ nat (- e) \<le> \<bar>m\<bar>)"

text \<open>
  What the reader of \<open>JSON.stringify(v)\<close> gets for a parsed value \<open>v\<close>: the value itself, but
  for the numbers that are not finite, which are written \<open>null\<close>. \<open>res.json(v)\<close> sends this
  text.
\<close>

fun wire :: "json \<Rightarrow> json" where
  "wire (JNum m e) = (if overflows m e then JNull else JNum m e)"
| "wire (JArr xs) = JArr (map wire xs)"
| "wire (JObj kvs) = JObj (map (\<lambda>(k, v). (k, wire v)) kvs)"
| "wire v = v"

subsection \<open>Property keys and own properties\<close>

definition digit :: "nat \<Rightarrow> bool" where
  "digit c = (48 \<le> c \<and> c \<le> 57)"

definition nat_of_digits :: "jsstring \<Rightarrow> nat" where
  "nat_of_digits ds = foldl (\<lambda>a c. 10 * a + (c - 48)) 0 ds"

text \<open>
  An array index is a canonical numeric string below \<open>2^32 - 1\<close>: the keys an object lists
  first, in ascending order, and the keys of the elements of an array or string.
\<close>

definition array_index :: "jsstring \<Rightarrow> nat option" where
  "array_index k =
     (if k = [] \<or> \<not> list_all digit k then None
      else if hd k = 48 \<and> length k > 1 then None
      else if nat_of_digits k < 4294967295 then Some (nat_of_digits k)
      else None)"

fun insert_index :: "nat \<Rightarrow> jsstring \<Rightarrow> 'a \<Rightarrow> (jsstring \<times> 'a) list \<Rightarrow> (jsstring \<times> 'a) list" where
  "insert_index i k v [] = [(k, v)]"
| "insert_index i k v ((k', v') # rest) =
     (case array_index k' of
        Some j \<Rightarrow> if j < i then (k', v') # insert_index i k v rest else (k, v) # (k', v') # rest
      | None \<Rightarrow> (k, v) # (k', v') # rest)"

text \<open>
  Defining a data property (an object literal, a spread, \<open>JSON.parse\<close>): an existing key
  keeps its place and takes the new value; a new array index goes among the indices, any
  other new key to the end.
\<close>

definition js_put :: "jsstring \<Rightarrow> 'a \<Rightarrow> (jsstring \<times> 'a) list \<Rightarrow> (jsstring \<times> 'a) list" where
  "js_put k v kvs =
     (if k \<in> fst ` set kvs then map (\<lambda>(k', v'). if k' = k then (k', v) else (k', v')) kvs
      else case array_index k of
             None \<Rightarrow> kvs @ [(k, v)]
           | Some i \<Rightarrow> insert_index i k v kvs)"

text \<open>
  Reading an own property of a value that is not \<open>null\<close>. An array has its elements and
  \<open>length\<close>, a string its code units and \<open>length\<close>, a number or boolean nothing. The handlers
  read the names \<open>query\<close>, \<open>textToExtract\<close>, \<open>textForInsight\<close>, \<open>sourceText\<close>, \<open>questions\<close>,
  \<open>messages\<close>, \<open>choices\<close>, \<open>length\<close>, \<open>0\<close>, \<open>message\<close>, \<open>content\<close> and \<open>id\<close> this way: no
  built-in prototype has a member of one of these names, so a name that is not an own
  property reads as \<open>undefined\<close>.
\<close>

fun get_own :: "json \<Rightarrow> jsstring \<Rightarrow> json option" where
  "get_own (JObj kvs) k = map_of kvs k"
| "get_own (JArr xs) k =
     (if k = str ''length'' then Some (JNum (int (length xs)) 0)
      else case array_index k of
             Some i \<Rightarrow> if i < length xs then Some (xs ! i) else None
           | None \<Rightarrow> None)"
| "get_own (JStr s) k =
     (if k = str ''length'' then Some (JNum (int (length s)) 0)
      else case array_index k of
             Some i \<Rightarrow> if i < length s then Some (JStr [s ! i]) else None
           | None \<Rightarrow> None)"
| "get_own v k = None"

text \<open>
  The decimal digits of a natural number: \<open>ToString\<close> of an array index, and of the year
  that \<open>new Date().getFullYear()\<close> returns.
\<close>

fun decimal :: "nat \<Rightarrow> jsstring" where
  "decimal n = (if n < 10 then [48 + n] else decimal (n div 10) @ [48 + n mod 10])"

text \<open>The own enumerable properties an object spread \<open>{...item}\<close> copies.\<close>

fun own_props :: "json \<Rightarrow> (jsstring \<times> json) list" where
  "own_props (JObj kvs) = kvs"
| "own_props (JArr xs) = map (\<lambda>i. (decimal i, xs ! i)) [0..<length xs]"
| "own_props (JStr s) = map (\<lambda>i. (decimal i, JStr [s ! i])) [0..<length s]"
| "own_props v = []"

subsection \<open>Operations of the runtime that are parameters\<close>

text \<open>
  Three operations of the language runtime are parameters of the model, so that every
  theorem holds whatever they compute:
  \<^item> \<open>number_to_string m e\<close>: \<open>Number::toString\<close> of the double nearest to \<open>m * 10^e\<close>;
  \<^item> \<open>string_positive s\<close>: whether \<open>s > 0\<close> holds for a string \<open>s\<close>, that is whether
    \<open>StringToNumber(s)\<close> is above zero;
  \<^item> \<open>builtin_member v k\<close>: whether \<open>k\<close> names a member of the prototype of the array,
    string, number or boolean \<open>v\<close> (\<open>Array.prototype\<close>, \<open>String.prototype\<close>, ...), a set
    that grows with the version of the language.
\<close>

record platform =
  number_to_string :: "int \<Rightarrow> int \<Rightarrow> jsstring"
  string_positive :: "jsstring \<Rightarrow> bool"
  builtin_member :: "json \<Rightarrow> jsstring \<Rightarrow> bool"

text \<open>
  \<open>ToString\<close>, as a template literal and a property key apply it; \<open>None\<close> is the
  \<open>TypeError\<close> of an object whose own \<open>toString\<close> property hides the inherited method (a
  parsed value is never callable, and the inherited \<open>valueOf\<close> returns the object). An
  array joins its elements with commas, \<open>null\<close> elements as the empty string.
\<close>

fun join_with :: "jsstring \<Rightarrow> jsstring list \<Rightarrow> jsstring" where
  "join_with sep [] = []"
| "join_with sep [x] = x"
| "join_with sep (x # y # ys) = x @ sep @ join_with sep (y # ys)"

fun those_list :: "'a option list \<Rightarrow> 'a list option" where
  "those_list [] = Some []"
| "those_list (x # xs) =
     (case x of None \<Rightarrow> None
      | Some y \<Rightarrow> (case those_list xs of None \<Rightarrow> None | Some ys \<Rightarrow> Some (y # ys)))"

fun to_string :: "platform \<Rightarrow> json \<Rightarrow> jsstring option" where
  "to_string P JNull = Some (str ''null'')"
| "to_string P (JBool b) = Some (if b then str ''true'' else str ''false'')"
| "to_string P (JNum m e) = Some (number_to_string P m e)"
| "to_string P (JStr s) = Some s"
| "to_string P (JArr xs) =
     (case those_list (map (\<lambda>x. if x = JNull then Some [] else to_string P x) xs) of
        None \<Rightarrow> None
      | Some parts \<Rightarrow> Some (join_with (str '','') parts))"
| "to_string P (JObj kvs) =
     (if str ''toString'' \<in> fst ` set kvs then None else Some (str ''[object Object]''))"

section \<open>String operations of the handlers\<close>

text \<open>
  The white space of \<open>String.prototype.trim\<close> and of the class \<open>\s\<close> of a regular
  expression: the same set, white space and line terminators.
\<close>

definition js_space :: "nat \<Rightarrow> bool" where
  "js_space c =
     (c \<in> {9, 10, 11, 12, 13, 32, 160, 5760, 8232, 8233, 8239, 8287, 12288, 65279}
      \<or> (8192 \<le> c \<and> c \<le> 8202))"

definition trim :: "jsstring \<Rightarrow> jsstring" where
  "trim s = rev (dropWhile js_space (rev (dropWhile js_space s)))"

text \<open>
  \<^verbatim>\<open>rawContent.replace(/^```json\s*|```\s*$/g, '')\<close>. The search for a match goes left to
  right and tries the first alternative before the second at each position. The first
  alternative can match at position 0 only (\<open>^\<close>, no multiline flag) and takes the tag
  with all the white space after it; the second matches where three backticks are
  followed by white space up to the end of the string (\<open>fence_to_end\<close>), and removes all of
  it. Neither alternative matches the empty string, so the search resumes right after a
  match.
\<close>

definition fence :: jsstring where
  "fence = [96, 96, 96]"

definition fence_to_end :: "jsstring \<Rightarrow> bool" where
  "fence_to_end s = (take 3 s = fence \<and> list_all js_space (drop 3 s))"

fun strip_tail :: "jsstring \<Rightarrow> jsstring" where
  "strip_tail [] = []"
| "strip_tail (c # cs) = (if fence_to_end (c # cs) then [] else c # strip_tail cs)"

definition strip_fences :: "jsstring \<Rightarrow> jsstring" where
  "strip_fences s =
     (if take 7 s = fence @ str ''json'' then strip_tail (dropWhile js_space (drop 7 s))
      else strip_tail s)"

section \<open>\<open>JSON.parse\<close>\<close>

text \<open>
  The grammar of JSON texts (ECMA-404), in two passes over the input, both by structural
  recursion: a scanner from code units to tokens and a parser from tokens to a value,
  with the stack of open arrays and objects explicit. \<open>None\<close> is the \<open>SyntaxError\<close>.
\<close>

datatype token =
    TLBrace | TRBrace | TLBracket | TRBracket | TComma | TColon
  | TString jsstring | TNumber int int | TTrue | TFalse | TNull

text \<open>
  A number: \<open>-? (0 | [1-9][0-9]*) (. [0-9]+)? ([eE] [+-]? [0-9]+)?\<close>, read as mantissa
  and decimal exponent.
\<close>

definition split_sign :: "jsstring \<Rightarrow> bool \<times> jsstring" where
  "split_sign s = (case s of [] \<Rightarrow> (False, []) | c # cs \<Rightarrow> if c = 45 then (True, cs) else (False, s))"

definition number_exponent :: "jsstring \<Rightarrow> int option" where
  "number_exponent s =
     (case s of
        [] \<Rightarrow> Some 0
      | c # cs \<Rightarrow>
          if c = 101 \<or> c = 69 then
            (let ds = (case cs of [] \<Rightarrow> [] | d # r \<Rightarrow> if d = 45 \<or> d = 43 then r else cs);
                 neg = (case cs of [] \<Rightarrow> False | d # r \<Rightarrow> d = 45)
             in if ds = [] \<or> \<not> list_all digit ds then None
                else Some (if neg then - int (nat_of_digits ds) else int (nat_of_digits ds)))
          else None)"

definition number_of_lexeme :: "jsstring \<Rightarrow> (int \<times> int) option" where
  "number_of_lexeme s =
     (let (neg, s1) = split_sign s;
          ip = takeWhile digit s1;
          r1 = dropWhile digit s1
      in if ip = [] \<or> (hd ip = 48 \<and> length ip > 1) then None
         else
           (let has_frac = (r1 \<noteq> [] \<and> hd r1 = 46);
                fp = (if has_frac then takeWhile digit (tl r1) else []);
                r2 = (if has_frac then dropWhile digit (tl r1) else r1)
            in if has_frac \<and> fp = [] then None
               else case number_exponent r2 of
                      None \<Rightarrow> None
                    | Some x \<Rightarrow>
                        Some (if neg then - int (nat_of_digits (ip @ fp)) else int (nat_of_digits (ip @ fp)),
                              x - int (length fp))))"

definition word_token :: "jsstring \<Rightarrow> token option" where
  "word_token w =
     (if w = str ''true'' then Some TTrue
      else if w = str ''false'' then Some TFalse
      else if w = str ''null'' then Some TNull
      else None)"

definition hex_value :: "nat \<Rightarrow> nat option" where
  "hex_value c =
     (if 48 \<le> c \<and> c \<le> 57 then Some (c - 48)
      else if 97 \<le> c \<and> c \<le> 102 then Some (c - 87)
      else if 65 \<le> c \<and> c \<le> 70 then Some (c - 55)
      else None)"

definition escape_value :: "nat \<Rightarrow> nat option" where
  "escape_value c =
     (if c = 34 \<or> c = 92 \<or> c = 47 then Some c
      else if c = 98 then Some 8
      else if c = 102 then Some 12
      else if c = 110 then Some 10
      else if c = 114 then Some 13
      else if c = 116 then Some 9
      else None)"

text \<open>
  The scanner's mode: between tokens; inside a string (the code units read so far);
  after a backslash; inside \<open>\uXXXX\<close> (the value of the hex digits read so far and their
  count); inside a run of number characters; inside a run of lower-case letters. A run
  ends at the first code unit that cannot extend it and must then be a number, or one of
  \<open>true\<close>, \<open>false\<close>, \<open>null\<close>, as a whole.
\<close>

datatype scan_mode =
    Between
  | InString jsstring
  | InEscape jsstring
  | InHex jsstring nat nat
  | InNumber jsstring
  | InWord jsstring

definition number_char :: "nat \<Rightarrow> bool" where
  "number_char c = (digit c \<or> c = 43 \<or> c = 45 \<or> c = 46 \<or> c = 101 \<or> c = 69)"

definition letter :: "nat \<Rightarrow> bool" where
  "letter c = (97 \<le> c \<and> c \<le> 122)"

definition json_space :: "nat \<Rightarrow> bool" where
  "json_space c = (c = 9 \<or> c = 10 \<or> c = 13 \<or> c = 32)"

definition scan_between :: "token list \<Rightarrow> nat \<Rightarrow> (token list \<times> scan_mode) option" where
  "scan_between ts c =
     (if json_space c then Some (ts, Between)
      else if c = 123 then Some (ts @ [TLBrace], Between)
      else if c = 125 then Some (ts @ [TRBrace], Between)
      else if c = 91 then Some (ts @ [TLBracket], Between)
      else if c = 93 then Some (ts @ [TRBracket], Between)
      else if c = 44 then Some (ts @ [TComma], Between)
      else if c = 58 then Some (ts @ [TColon], Between)
      else if c = 34 then Some (ts, InString [])
      else if c = 45 \<or> digit c then Some (ts, InNumber [c])
      else if letter c then Some (ts, InWord [c])
      else None)"

fun scan_step :: "(token list \<times> scan_mode) \<Rightarrow> nat \<Rightarrow> (token list \<times> scan_mode) option" where
  "scan_step (ts, Between) c = scan_between ts c"
| "scan_step (ts, InString acc) c =
     (if c = 34 then Some (ts @ [TString acc], Between)
      else if c = 92 then Some (ts, InEscape acc)
      else if c < 32 then None
      else Some (ts, InString (acc @ [c])))"
| "scan_step (ts, InEscape acc) c =
     (if c = 117 then Some (ts, InHex acc 0 0)
      else case escape_value c of None \<Rightarrow> None | Some u \<Rightarrow> Some (ts, InString (acc @ [u])))"
| "scan_step (ts, InHex acc v n) c =
     (case hex_value c of
        None \<Rightarrow> None
      | Some h \<Rightarrow> if n = 3 then Some (ts, InString (acc @ [16 * v + h]))
                  else Some (ts, InHex acc (16 * v + h) (Suc n)))"
| "scan_step (ts, InNumber lx) c =
     (if number_char c then Some (ts, InNumber (lx @ [c]))
      else case number_of_lexeme lx of
             None \<Rightarrow> None
           | Some (m, e) \<Rightarrow> scan_between (ts @ [TNumber m e]) c)"
| "scan_step (ts, InWord w) c =
     (if letter c then Some (ts, InWord (w @ [c]))
      else case word_token w of None \<Rightarrow> None | Some t \<Rightarrow> scan_between (ts @ [t]) c)"

fun scan :: "(token list \<times> scan_mode) \<Rightarrow> jsstring \<Rightarrow> token list option" where
  "scan (ts, Between) [] = Some ts"
| "scan (ts, InNumber lx) [] =
     (case number_of_lexeme lx of None \<Rightarrow> None | Some (m, e) \<Rightarrow> Some (ts @ [TNumber m e]))"
| "scan (ts, InWord w) [] = (case word_token w of None \<Rightarrow> None | Some t \<Rightarrow> Some (ts @ [t]))"
| "scan (ts, m) [] = None"
| "scan st (c # cs) = (case scan_step st c of None \<Rightarrow> None | Some st' \<Rightarrow> scan st' cs)"

text \<open>
  The parser. A frame is an open array with its elements so far, or an open object with
  its properties so far and the key that waits for its value.
\<close>

datatype frame = ArrayFrame "json list" | ObjectFrame "(jsstring \<times> json) list" "jsstring option"

datatype expect =
    AValue
  | AValueOrClose
  | AKeyOrClose
  | AKey
  | AColon
  | ASeparator
  | AtEnd json

text \<open>A complete value goes to the frame on top, or is the result when no frame is open.\<close>

fun deliver :: "json \<Rightarrow> frame list \<Rightarrow> (frame list \<times> expect) option" where
  "deliver v [] = Some ([], AtEnd v)"
| "deliver v (ArrayFrame xs # fs) = Some (ArrayFrame (xs @ [v]) # fs, ASeparator)"
| "deliver v (ObjectFrame kvs (Some k) # fs) = Some (ObjectFrame (js_put k v kvs) None # fs, ASeparator)"
| "deliver v (ObjectFrame kvs None # fs) = None"

fun open_value :: "token \<Rightarrow> frame list \<Rightarrow> (frame list \<times> expect) option" where
  "open_value (TString s) fs = deliver (JStr s) fs"
| "open_value (TNumber m e) fs = deliver (JNum m e) fs"
| "open_value TTrue fs = deliver (JBool True) fs"
| "open_value TFalse fs = deliver (JBool False) fs"
| "open_value TNull fs = deliver JNull fs"
| "open_value TLBracket fs = Some (ArrayFrame [] # fs, AValueOrClose)"
| "open_value TLBrace fs = Some (ObjectFrame [] None # fs, AKeyOrClose)"
| "open_value t fs = None"

fun close_frame :: "token \<Rightarrow> frame list \<Rightarrow> (frame list \<times> expect) option" where
  "close_frame TRBracket (ArrayFrame xs # fs) = deliver (JArr xs) fs"
| "close_frame TRBrace (ObjectFrame kvs None # fs) = deliver (JObj kvs) fs"
| "close_frame t fs = None"

fun take_key :: "token \<Rightarrow> frame list \<Rightarrow> (frame list \<times> expect) option" where
  "take_key (TString k) (ObjectFrame kvs None # fs) = Some (ObjectFrame kvs (Some k) # fs, AColon)"
| "take_key t fs = None"

fun parse_step :: "(frame list \<times> expect) \<Rightarrow> token \<Rightarrow> (frame list \<times> expect) option" where
  "parse_step (fs, AValue) t = open_value t fs"
| "parse_step (fs, AValueOrClose) t = (if t = TRBracket then close_frame t fs else open_value t fs)"
| "parse_step (fs, AKeyOrClose) t = (if t = TRBrace then close_frame t fs else take_key t fs)"
| "parse_step (fs, AKey) t = take_key t fs"
| "parse_step (fs, AColon) t = (if t = TColon then Some (fs, AValue) else None)"
| "parse_step (fs, ASeparator) t =
     (if t = TComma then
        (case fs of
           ArrayFrame xs # r \<Rightarrow> Some (fs, AValue)
         | ObjectFrame kvs None # r \<Rightarrow> Some (fs, AKey)
         | _ \<Rightarrow> None)
      else close_frame t fs)"
| "parse_step (fs, AtEnd v) t = None"

fun parse_tokens :: "(frame list \<times> expect) \<Rightarrow> token list \<Rightarrow> json option" where
  "parse_tokens (fs, AtEnd v) [] = Some v"
| "parse_tokens (fs, x) [] = None"
| "parse_tokens st (t # ts) = (case parse_step st t of None \<Rightarrow> None | Some st' \<Rightarrow> parse_tokens st' ts)"

definition json_parse :: "jsstring \<Rightarrow> json option" where
  "json_parse s = (case scan ([], Between) s of None \<Rightarrow> None | Some ts \<Rightarrow> parse_tokens ([], AValue) ts)"

section \<open>What a handler receives and produces\<close>

text \<open>
  A handler runs with the process environment (\<open>process.env\<close>), the current year (what
  \<open>new Date().getFullYear()\<close> returns: the year of the local time, which the clock and the
  time zone of the process decide), the upstream API (what \<open>fetch\<close> and
  \<open>response.json()\<close> give for a request sent) and the request body, \<open>req.body\<close>. The body is
  the object that \<open>express.json()\<close> parsed, given by its properties (an array body has none
  of the names a handler reads), or it is \<open>undefined\<close> (\<open>None\<close>): the source does not say
  which version of the framework it runs on, and for a request without a JSON body the
  middleware of version 4 leaves \<open>{}\<close>, that of version 5 leaves \<open>req.body\<close> undefined.
  A handler returns the requests it sent upstream, in order, and its response.
\<close>

type_synonym env = "jsstring \<Rightarrow> jsstring option"

type_synonym request_body = "(jsstring \<times> json) list option"

record outbound =
  url :: jsstring
  authorization :: jsstring
  payload :: json

text \<open>
  \<open>fetch\<close> rejects with an error of some message, or resolves to a response with a status,
  a status text and a body; \<open>response.json()\<close> rejects with an error of some message (\<open>Inl\<close>)
  or resolves to the parsed body (\<open>Inr\<close>).
\<close>

datatype upstream = NetworkFailure jsstring | Reply nat jsstring "jsstring + json"

text \<open>
  What a \<open>try\<close> block can throw: the rejection of an awaited promise, with its message, or a
  \<open>TypeError\<close> of the runtime, whose message the engine words.
\<close>

datatype js_error = Rejection jsstring | TypeError

text \<open>
  A response body, as its reader gets it: \<open>Payload v\<close> for the JSON text of the value \<open>v\<close>
  (\<open>res.json(x)\<close> sends \<open>Payload (wire x)\<close>), \<open>Failure\<close> for \<open>res.json({error, details})\<close>
  (\<open>EngineMessage\<close> stands for the engine's text of a \<open>TypeError\<close>), \<open>PlainText\<close> for
  \<open>res.send(text)\<close>, and the page the framework's default error handler writes, for an error
  of some message (\<open>ErrorPage\<close>) or for a \<open>TypeError\<close> (\<open>TypeErrorPage\<close>).
\<close>

datatype details = NoDetails | Details json | EngineMessage

datatype body =
    Payload json
  | Failure jsstring details
  | PlainText jsstring
  | ErrorPage jsstring
  | TypeErrorPage

record response =
  status :: nat
  body :: body

text \<open>
  Every handler is an \<open>async\<close> function that begins by destructuring the body,
  \<open>const { ... } = req.body\<close>, before its \<open>try\<close> block: with \<open>req.body\<close> undefined this throws
  a \<open>TypeError\<close>, the promise of the handler rejects, and the framework (version 5, where
  alone the body can be undefined) passes the error to its default error handler, which
  answers 500 with a page for the error.
\<close>

definition no_body :: response where
  "no_body = \<lparr>status = 500, body = TypeErrorPage\<rparr>"

definition details_of :: "js_error \<Rightarrow> details" where
  "details_of e = (case e of Rejection m \<Rightarrow> Details (JStr m) | TypeError \<Rightarrow> EngineMessage)"

text \<open>\<open>response.ok\<close> of a fetch response.\<close>

definition ok :: "nat \<Rightarrow> bool" where
  "ok st = (200 \<le> st \<and> st \<le> 299)"

text \<open>
  \<open>x > 0\<close> for a property value \<open>x\<close>; \<open>None\<close> is the \<open>TypeError\<close> of a value with no primitive
  value. \<open>undefined\<close> and an object are \<open>NaN\<close>, \<open>null\<close> is 0, \<open>true\<close> is 1.
\<close>

fun positive :: "platform \<Rightarrow> json option \<Rightarrow> bool option" where
  "positive P None = Some False"
| "positive P (Some JNull) = Some False"
| "positive P (Some (JBool b)) = Some b"
| "positive P (Some (JNum m e)) = Some (0 < m \<and> \<not> rounds_to_zero m e)"
| "positive P (Some (JStr s)) = Some (string_positive P s)"
| "positive P (Some (JArr xs)) =
     (case to_string P (JArr xs) of None \<Rightarrow> None | Some s \<Rightarrow> Some (string_positive P s))"
| "positive P (Some (JObj kvs)) = (if str ''toString'' \<in> fst ` set kvs then None else Some False)"

text \<open>
  The test every handler applies to the parsed reply:
  \<^verbatim>\<open>data && data.choices && data.choices.length > 0 && data.choices[0].message
  && data.choices[0].message.content\<close>.
  It is falsy, or truthy with the content as its value, or it throws: reading \<open>message\<close> of
  a first choice that is \<open>null\<close> or \<open>undefined\<close>, or comparing a \<open>length\<close> that has no
  primitive value.
\<close>

datatype content = Throws | Falsy | Content json

definition reply_content :: "platform \<Rightarrow> json \<Rightarrow> content" where
  "reply_content P data =
     (if \<not> truthy data then Falsy
      else case get_own data (str ''choices'') of
        None \<Rightarrow> Falsy
      | Some choices \<Rightarrow>
          if \<not> truthy choices then Falsy
          else case positive P (get_own choices (str ''length'')) of
            None \<Rightarrow> Throws
          | Some False \<Rightarrow> Falsy
          | Some True \<Rightarrow>
              (case get_own choices (str ''0'') of
                 None \<Rightarrow> Throws
               | Some first \<Rightarrow>
                   if first = JNull then Throws
                   else case get_own first (str ''message'') of
                     None \<Rightarrow> Falsy
                   | Some message \<Rightarrow>
                       if \<not> truthy message then Falsy
                       else case get_own message (str ''content'') of
                         None \<Rightarrow> Falsy
                       | Some c \<Rightarrow> if truthy c then Content c else Falsy))"

text \<open>
  The block \<open>if (!response.ok) { ... }\<close>, the same in every handler but for the label of
  the message: it relays the upstream status, with
  \<open>errorData.message || 'Unknown error from OpenRouter'\<close> as details.
\<close>

definition unknown_error :: json where
  "unknown_error = JStr (str ''Unknown error from OpenRouter'')"

definition relay_failure :: "jsstring \<Rightarrow> nat \<Rightarrow> jsstring \<Rightarrow> jsstring + json \<Rightarrow> js_error + response" where
  "relay_failure label st st_text b =
     (case b of
        Inl m \<Rightarrow> Inl (Rejection m)
      | Inr errorData \<Rightarrow>
          if errorData = JNull then Inl TypeError
          else Inr \<lparr>status = st,
                    body = Failure (label @ st_text)
                      (Details (wire (case get_own errorData (str ''message'') of
                                        None \<Rightarrow> unknown_error
                                      | Some m \<Rightarrow> if truthy m then m else unknown_error)))\<rparr>)"

text \<open>
  The request a handler sends: the URL, the bearer token and the body given to
  \<open>JSON.stringify\<close>. Every body has the model, the messages, a temperature (in tenths) and
  a token limit; every message has a role and a content.
\<close>

definition api_request :: "jsstring \<Rightarrow> jsstring \<Rightarrow> json \<Rightarrow> outbound" where
  "api_request u k b = \<lparr>url = u, authorization = str ''Bearer '' @ k, payload = b\<rparr>"

definition turn :: "string \<Rightarrow> json \<Rightarrow> json" where
  "turn r c = JObj [(str ''role'', JStr (str r)), (str ''content'', c)]"

definition completion :: "jsstring \<Rightarrow> json list \<Rightarrow> int \<Rightarrow> int \<Rightarrow> (jsstring \<times> json) list" where
  "completion model ms tenths tokens =
     [(str ''model'', JStr model), (str ''messages'', JArr ms),
      (str ''temperature'', JNum tenths (- 1)), (str ''max_tokens'', JNum tokens 0)]"

text \<open>
  Reading \<open>v[k]\<close> for a key that may be any string. Reading a property of \<open>null\<close> throws
  (\<open>None\<close>). A name that is not an own property is looked up in the prototypes: every value
  inherits the members of \<open>Object.prototype\<close>, all functions but the accessor \<open>__proto__\<close>,
  and an array, string, number or boolean those of its own prototype.
\<close>

definition object_prototype_names :: "jsstring list" where
  "object_prototype_names =
     map str [''constructor'', ''__defineGetter__'', ''__defineSetter__'', ''hasOwnProperty'',
              ''__lookupGetter__'', ''__lookupSetter__'', ''isPrototypeOf'', ''propertyIsEnumerable'',
              ''toString'', ''valueOf'', ''__proto__'', ''toLocaleString'']"

datatype property = Own json | Inherited | Undefined

definition read_property :: "platform \<Rightarrow> json \<Rightarrow> jsstring \<Rightarrow> property option" where
  "read_property P v k =
     (if v = JNull then None
      else case get_own v k of
        Some x \<Rightarrow> Some (Own x)
      | None \<Rightarrow>
          if k \<in> set object_prototype_names then Some Inherited
          else case v of
            JObj kvs \<Rightarrow> Some Undefined
          | _ \<Rightarrow> if builtin_member P v k then Some Inherited else Some Undefined)"

text \<open>
  Assigning \<open>o[k] = x\<close> to an ordinary object \<open>o\<close> that the handler built. The object has its
  own properties, in property order, and a prototype. A property holds a parsed value, or
  a built-in function (\<open>None\<close>), which \<open>JSON.stringify\<close> leaves out. The prototype is the
  built-in prototype of some parsed value (\<open>Object.prototype\<close> for an object, as for every
  object literal; \<open>Array.prototype\<close> for an array; \<open>String.prototype\<close>, ...), or a parsed
  object or array itself, or none.
\<close>

datatype prototype = PrototypeOf json | Parsed json | NoPrototype

type_synonym target = "(jsstring \<times> json option) list \<times> prototype"

text \<open>
  When \<open>k\<close> is not an own property of \<open>o\<close>, the assignment looks \<open>k\<close> up along the prototypes.
  It defines the own property when it finds nothing or a writable data property (the own
  properties of a parsed value, the methods of the built-in prototypes, the \<open>length\<close> of
  \<open>Array.prototype\<close>); it does nothing when it finds a data property that is not writable
  (the \<open>length\<close> of \<open>String.prototype\<close>; the source is not in strict mode, so that nothing is
  thrown); it calls the setter when it finds the accessor \<open>__proto__\<close> of \<open>Object.prototype\<close>.
\<close>

datatype slot = Settable | ReadOnly | ProtoSetter

definition object_slot :: "jsstring \<Rightarrow> slot" where
  "object_slot k = (if k = str ''__proto__'' then ProtoSetter else Settable)"

fun builtin_slot :: "json \<Rightarrow> jsstring \<Rightarrow> slot" where
  "builtin_slot (JStr s) k = (if k = str ''length'' then ReadOnly else object_slot k)"
| "builtin_slot v k = object_slot k"

fun chain_slot :: "prototype \<Rightarrow> jsstring \<Rightarrow> slot" where
  "chain_slot NoPrototype k = Settable"
| "chain_slot (PrototypeOf v) k = builtin_slot v k"
| "chain_slot (Parsed x) k = (if get_own x k \<noteq> None then Settable else builtin_slot x k)"

text \<open>
  The setter of \<open>__proto__\<close> changes the prototype when it is given an object or \<open>null\<close>, and
  does nothing when it is given another value. The value given is what was read from the
  parsed value \<open>v\<close>: an own property of \<open>v\<close>, or the inherited \<open>__proto__\<close>, which is the built-in
  prototype of \<open>v\<close>.
\<close>

fun set_prototype :: "json \<Rightarrow> property \<Rightarrow> prototype \<Rightarrow> prototype" where
  "set_prototype v (Own JNull) old = NoPrototype"
| "set_prototype v (Own (JObj kvs)) old = Parsed (JObj kvs)"
| "set_prototype v (Own (JArr xs)) old = Parsed (JArr xs)"
| "set_prototype v (Own x) old = old"
| "set_prototype v Inherited old = PrototypeOf v"
| "set_prototype v Undefined old = old"

text \<open>
  What \<open>JSON.stringify\<close> writes for the built-in prototype of a value, were it the value of
  a property: \<open>Object.prototype\<close> is an object with no enumerable property,
  \<open>Array.prototype\<close> an empty array, and \<open>String.prototype\<close>, \<open>Number.prototype\<close> and
  \<open>Boolean.prototype\<close> are wrappers of \<open>""\<close>, \<open>0\<close> and \<open>false\<close>.
\<close>

fun prototype_json :: "json \<Rightarrow> json" where
  "prototype_json (JArr xs) = JArr []"
| "prototype_json (JStr s) = JStr []"
| "prototype_json (JNum m e) = JNum 0 0"
| "prototype_json (JBool b) = JBool False"
| "prototype_json v = JObj []"

text \<open>The properties that \<open>JSON.stringify\<close> writes: those that do not hold a function.\<close>

fun enumerable :: "(jsstring \<times> json option) list \<Rightarrow> (jsstring \<times> json) list" where
  "enumerable [] = []"
| "enumerable ((k, None) # rest) = enumerable rest"
| "enumerable ((k, Some x) # rest) = (k, x) # enumerable rest"

section \<open>The server of \<open>src/server.js\<close>\<close>

definition OPENROUTER_API_URL :: jsstring where
  "OPENROUTER_API_URL = str ''https://openrouter.ai/api/v1/chat/completions''"

definition MODEL_TO_USE :: jsstring where
  "MODEL_TO_USE = str ''openai/gpt-3.5-turbo''"

text \<open>
  \<open>checkApiKey\<close> reads \<open>process.env.OPENROUTER_API_KEY\<close> when it is called. Without a key
  (unset, or the empty string) it sends the response \<open>Inl\<close> and returns \<open>false\<close>; otherwise it
  returns the key.
\<close>

definition checkApiKey :: "env \<Rightarrow> response + jsstring" where
  "checkApiKey env =
     (case env (str ''OPENROUTER_API_KEY'') of
        None \<Rightarrow> Inl \<lparr>status = 500, body = Failure (str ''Server configuration error: API Key missing.'') NoDetails\<rparr>
      | Some k \<Rightarrow>
          if k = [] then Inl \<lparr>status = 500, body = Failure (str ''Server configuration error: API Key missing.'') NoDetails\<rparr>
          else Inr k)"

subsection \<open>\<open>POST /api/search\<close>\<close>

definition search_system :: jsstring where
  "search_system = str ''You are an AI research assistant. When asked a query, provide 2-3 concise, fictional search result-like summaries. Each summary should include a \"title\", \"source\" (e.g., Journal, Institute, Blog, Year), and a brief \"snippet\" (2-3 sentences). Present this data as a JSON array of objects. DO NOT include any conversational text outside the JSON.''"

text \<open>
  The callback of \<open>fetchedResults.map\<close>: \<open>{ ...item, id: item.id || index + 1 }\<close>. Reading
  \<open>id\<close> of \<open>null\<close> throws.
\<close>

definition with_id :: "nat \<Rightarrow> json \<Rightarrow> json option" where
  "with_id index item =
     (if item = JNull then None
      else Some (JObj (js_put (str ''id'')
                   (case get_own item (str ''id'') of
                      None \<Rightarrow> JNum (int index + 1) 0
                    | Some v \<Rightarrow> if truthy v then v else JNum (int index + 1) 0)
                   (own_props item))))"

text \<open>
  The inner \<open>try\<close> block: strip the fences, trim, parse, map. \<open>None\<close> when it throws:
  \<open>replace\<close> is not a function of a content that is not a string, \<open>JSON.parse\<close> throws a
  \<open>SyntaxError\<close>, \<open>map\<close> is not a function of a value that is not an array, or the callback
  throws.
\<close>

definition search_parse :: "json \<Rightarrow> json list option" where
  "search_parse rawContent =
     (case rawContent of
        JStr raw \<Rightarrow>
          (case json_parse (trim (strip_fences raw)) of
             Some (JArr items) \<Rightarrow> those_list (map (\<lambda>i. with_id i (items ! i)) [0..<length items])
           | _ \<Rightarrow> None)
      | _ \<Rightarrow> None)"

definition parse_failure_result :: "jsstring \<Rightarrow> nat \<Rightarrow> jsstring \<Rightarrow> json" where
  "parse_failure_result q yr raw =
     JObj [(str ''id'', JNum 1 0),
           (str ''title'', JStr (str ''AI Could Not Parse Results for \"'' @ q @ str ''\" (Backend Error)'')),
           (str ''source'', JStr (str ''OpenRouter API Parsing Issue, '' @ decimal yr)),
           (str ''snippet'', JStr (str ''The AI responded, but its output could not be formatted as expected by the backend. Raw response (truncated): '' @ take (min (length raw) 200) raw @ str ''...''))]"

definition no_content_result :: "jsstring \<Rightarrow> nat \<Rightarrow> json" where
  "no_content_result q yr =
     JObj [(str ''id'', JNum 1 0),
           (str ''title'', JStr (str ''No Relevant AI Response for \"'' @ q @ str ''\" (Backend Search)'')),
           (str ''source'', JStr (str ''OpenRouter API, '' @ decimal yr)),
           (str ''snippet'', JStr (str ''The AI did not provide any content for your search query via the backend.''))]"

text \<open>
  From the parsed reply to \<open>fetchedResults\<close>. The fallback objects are built in the \<open>catch\<close>
  block and in the \<open>else\<close> branch; the template of the title throws when the query has no
  string value, the \<open>substring\<close> of the snippet when the content is not a string, and
  either goes to the outer \<open>catch\<close>.
\<close>

definition search_results :: "platform \<Rightarrow> nat \<Rightarrow> json \<Rightarrow> json \<Rightarrow> js_error + json list" where
  "search_results P yr query data =
     (case reply_content P data of
        Throws \<Rightarrow> Inl TypeError
      | Content rawContent \<Rightarrow>
          (case search_parse rawContent of
             Some results \<Rightarrow> Inr results
           | None \<Rightarrow>
               (case to_string P query of
                  None \<Rightarrow> Inl TypeError
                | Some q \<Rightarrow>
                    (case rawContent of
                       JStr raw \<Rightarrow> Inr [parse_failure_result q yr raw]
                     | _ \<Rightarrow> Inl TypeError)))
      | Falsy \<Rightarrow>
          (case to_string P query of
             None \<Rightarrow> Inl TypeError
           | Some q \<Rightarrow> Inr [no_content_result q yr]))"

text \<open>The body of the outer \<open>try\<close>, from the settled \<open>fetch\<close> on.\<close>

definition search_try :: "platform \<Rightarrow> nat \<Rightarrow> json \<Rightarrow> upstream \<Rightarrow> js_error + response" where
  "search_try P yr query up =
     (case up of
        NetworkFailure m \<Rightarrow> Inl (Rejection m)
      | Reply st st_text b \<Rightarrow>
          if \<not> ok st then relay_failure (str ''OpenRouter API error: '') st st_text b
          else case b of
            Inl m \<Rightarrow> Inl (Rejection m)
          | Inr data \<Rightarrow>
              (case search_results P yr query data of
                 Inl e \<Rightarrow> Inl e
               | Inr results \<Rightarrow>
                   Inr \<lparr>status = 200, body = Payload (wire (JObj [(str ''results'', JArr results)]))\<rparr>))"

text \<open>The request of the handler: the system turn, and the query as the user turn.\<close>

definition search_request :: "jsstring \<Rightarrow> json \<Rightarrow> outbound" where
  "search_request k query =
     api_request OPENROUTER_API_URL k
       (JObj (completion MODEL_TO_USE [turn ''system'' (JStr search_system), turn ''user'' query] 7 500))"

definition post_search :: "platform \<Rightarrow> env \<Rightarrow> nat \<Rightarrow> (outbound \<Rightarrow> upstream) \<Rightarrow> request_body
    \<Rightarrow> outbound list \<times> response" where
  "post_search P env yr fetch req_body =
     (case req_body of
        None \<Rightarrow> ([], no_body)
      | Some req \<Rightarrow>
          (case map_of req (str ''query'') of
             None \<Rightarrow> ([], \<lparr>status = 400, body = Failure (str ''Search query is required.'') NoDetails\<rparr>)
           | Some query \<Rightarrow>
               if \<not> truthy query
               then ([], \<lparr>status = 400, body = Failure (str ''Search query is required.'') NoDetails\<rparr>)
               else case checkApiKey env of
                 Inl sent \<Rightarrow> ([], sent)
               | Inr k \<Rightarrow>
                   (let call = search_request k query
                    in ([call],
                        case search_try P yr query (fetch call) of
                          Inr sent \<Rightarrow> sent
                        | Inl e \<Rightarrow> \<lparr>status = 500,
                                    body = Failure (str ''Failed to fetch search results from OpenRouter.'') (details_of e)\<rparr>))))"

subsection \<open>\<open>POST /api/extract\<close>\<close>

definition extract_system :: jsstring where
  "extract_system = str ''You are an AI assistant specialized in extracting key information and structuring it into a concise outline. Format the outline using bullet points and sub-bullet points. Do NOT include any conversational text, only the outline.''"

definition extract_try :: "platform \<Rightarrow> upstream \<Rightarrow> js_error + response" where
  "extract_try P up =
     (case up of
        NetworkFailure m \<Rightarrow> Inl (Rejection m)
      | Reply st st_text b \<Rightarrow>
          if \<not> ok st then relay_failure (str ''OpenRouter API error during extraction: '') st st_text b
          else case b of
            Inl m \<Rightarrow> Inl (Rejection m)
          | Inr data \<Rightarrow>
              (case reply_content P data of
                 Throws \<Rightarrow> Inl TypeError
               | Content outlineContent \<Rightarrow>
                   Inr \<lparr>status = 200, body = Payload (wire (JObj [(str ''outline'', outlineContent)]))\<rparr>
               | Falsy \<Rightarrow>
                   Inr \<lparr>status = 500, body = Failure (str ''AI did not provide outline content.'') NoDetails\<rparr>))"

text \<open>
  The template of the user turn is evaluated inside the \<open>try\<close>, before \<open>fetch\<close> is called:
  when it throws, nothing is sent.
\<close>

definition extract_request :: "jsstring \<Rightarrow> jsstring \<Rightarrow> outbound" where
  "extract_request k t =
     api_request OPENROUTER_API_URL k
       (JObj (completion MODEL_TO_USE
          [turn ''system'' (JStr extract_system),
           turn ''user'' (JStr (str ''Create a concise outline from the following text:'' @ [10, 10] @ t))]
          3 300))"

definition post_extract :: "platform \<Rightarrow> env \<Rightarrow> (outbound \<Rightarrow> upstream) \<Rightarrow> request_body
    \<Rightarrow> outbound list \<times> response" where
  "post_extract P env fetch req_body =
     (case req_body of
        None \<Rightarrow> ([], no_body)
      | Some req \<Rightarrow>
          (case map_of req (str ''textToExtract'') of
             None \<Rightarrow> ([], \<lparr>status = 400, body = Failure (str ''Text to extract is required.'') NoDetails\<rparr>)
           | Some textToExtract \<Rightarrow>
               if \<not> truthy textToExtract
               then ([], \<lparr>status = 400, body = Failure (str ''Text to extract is required.'') NoDetails\<rparr>)
               else case checkApiKey env of
                 Inl sent \<Rightarrow> ([], sent)
               | Inr k \<Rightarrow>
                   (case to_string P textToExtract of
                      None \<Rightarrow> ([], \<lparr>status = 500,
                                     body = Failure (str ''Failed to generate outline from OpenRouter.'') EngineMessage\<rparr>)
                    | Some t \<Rightarrow>
                        (let call = extract_request k t
                         in ([call],
                             case extract_try P (fetch call) of
                               Inr sent \<Rightarrow> sent
                             | Inl e \<Rightarrow> \<lparr>status = 500,
                                         body = Failure (str ''Failed to generate outline from OpenRouter.'') (details_of e)\<rparr>)))))"

subsection \<open>\<open>POST /api/insight\<close>\<close>

definition insight_system :: jsstring where
  "insight_system = str ''You are an AI research assistant. Given a piece of text, identify the most significant, non-obvious, and actionable insight. Frame it as a concise, thought-provoking statement or a short paragraph. Do NOT include any conversational text outside of the insight itself.''"

definition insight_try :: "platform \<Rightarrow> upstream \<Rightarrow> js_error + response" where
  "insight_try P up =
     (case up of
        NetworkFailure m \<Rightarrow> Inl (Rejection m)
      | Reply st st_text b \<Rightarrow>
          if \<not> ok st then relay_failure (str ''OpenRouter API error during insight generation: '') st st_text b
          else case b of
            Inl m \<Rightarrow> Inl (Rejection m)
          | Inr data \<Rightarrow>
              (case reply_content P data of
                 Throws \<Rightarrow> Inl TypeError
               | Content insightContent \<Rightarrow>
                   Inr \<lparr>status = 200, body = Payload (wire (JObj [(str ''insight'', insightContent)]))\<rparr>
               | Falsy \<Rightarrow>
                   Inr \<lparr>status = 500, body = Failure (str ''AI did not provide insight content.'') NoDetails\<rparr>))"

definition insight_request :: "jsstring \<Rightarrow> jsstring \<Rightarrow> outbound" where
  "insight_request k t =
     api_request OPENROUTER_API_URL k
       (JObj (completion MODEL_TO_USE
          [turn ''system'' (JStr insight_system),
           turn ''user'' (JStr (str ''Generate a key insight from the following text:'' @ [10, 10] @ t))]
          7 150))"

definition post_insight :: "platform \<Rightarrow> env \<Rightarrow> (outbound \<Rightarrow> upstream) \<Rightarrow> request_body
    \<Rightarrow> outbound list \<times> response" where
  "post_insight P env fetch req_body =
     (case req_body of
        None \<Rightarrow> ([], no_body)
      | Some req \<Rightarrow>
          (case map_of req (str ''textForInsight'') of
             None \<Rightarrow> ([], \<lparr>status = 400, body = Failure (str ''Text for insight is required.'') NoDetails\<rparr>)
           | Some textForInsight \<Rightarrow>
               if \<not> truthy textForInsight
               then ([], \<lparr>status = 400, body = Failure (str ''Text for insight is required.'') NoDetails\<rparr>)
               else case checkApiKey env of
                 Inl sent \<Rightarrow> ([], sent)
               | Inr k \<Rightarrow>
                   (case to_string P textForInsight of
                      None \<Rightarrow> ([], \<lparr>status = 500,
                                     body = Failure (str ''Failed to generate insight from OpenRouter.'') EngineMessage\<rparr>)
                    | Some t \<Rightarrow>
                        (let call = insight_request k t
                         in ([call],
                             case insight_try P (fetch call) of
                               Inr sent \<Rightarrow> sent
                             | Inl e \<Rightarrow> \<lparr>status = 500,
                                         body = Failure (str ''Failed to generate insight from OpenRouter.'') (details_of e)\<rparr>)))))"

subsection \<open>\<open>POST /api/populate_form\<close>\<close>

definition populate_system :: jsstring where
  "populate_system = str ''You are an expert data extractor. Your task is to precisely answer given questions based ONLY on the provided source text. Respond strictly in the specified JSON format. If information for a question is not found, use an empty string as the value.''"

text \<open>The template of the prompt, line by line; \<open>10\<close> is the line feed.\<close>

definition populate_prompt :: "jsstring \<Rightarrow> jsstring list \<Rightarrow> jsstring" where
  "populate_prompt sourceText qs =
     str ''Based on the following source text, answer each of the following questions concisely. Provide only the answer for each question, or leave it blank if the information is not directly present. Format your complete response as a JSON object where keys are the exact questions and values are the extracted answers. Ensure the JSON is valid and contains no extra text.''
     @ [10, 10] @ str ''    Source Text:''
     @ [10] @ str ''    ---''
     @ [10] @ str ''    '' @ sourceText
     @ [10] @ str ''    ---''
     @ [10, 10] @ str ''    Questions to Answer:''
     @ [10] @ str ''    '' @ join_with [10] (map (\<lambda>q. str ''- '' @ q) qs)
     @ [10, 10] @ str ''    Example JSON structure:''
     @ [10] @ str ''    {''
     @ [10] @ str ''      \"Question 1\": \"Answer to Q1\",''
     @ [10] @ str ''      \"Question 2\": \"Answer to Q2\",''
     @ [10] @ str ''      \"Question 3\": \"\"''
     @ [10] @ str ''    }''
     @ [10] @ str ''    ''"

text \<open>
  \<^verbatim>\<open>populatedFields[q] !== undefined ? populatedFields[q] : ''\<close>, the value assigned: the
  own property read, the empty string, or the inherited member, which is a function, or
  for \<open>__proto__\<close> the built-in prototype of \<open>populatedFields\<close>.
\<close>

definition answer :: "json \<Rightarrow> jsstring \<Rightarrow> property \<Rightarrow> json option" where
  "answer populatedFields k p =
     (case p of
        Own x \<Rightarrow> Some x
      | Undefined \<Rightarrow> Some (JStr [])
      | Inherited \<Rightarrow> if k = str ''__proto__'' then Some (prototype_json populatedFields) else None)"

text \<open>
  \<^verbatim>\<open>finalPopulatedFields[q] = ...\<close>. The object starts as \<open>{}\<close>, with no property and the
  prototype \<open>Object.prototype\<close>. An own property takes the new value; a name that is not an
  own property is looked up along the prototypes first.
\<close>

definition assign :: "json \<Rightarrow> jsstring \<Rightarrow> property \<Rightarrow> target \<Rightarrow> target" where
  "assign populatedFields k p final =
     (case final of
        (own, proto) \<Rightarrow>
          if k \<in> fst ` set own then (js_put k (answer populatedFields k p) own, proto)
          else case chain_slot proto k of
            Settable \<Rightarrow> (js_put k (answer populatedFields k p) own, proto)
          | ReadOnly \<Rightarrow> (own, proto)
          | ProtoSetter \<Rightarrow> (own, set_prototype populatedFields p proto))"

text \<open>The loop \<open>questions.forEach\<close>; a question becomes a property key by \<open>ToString\<close>.\<close>

fun fill :: "platform \<Rightarrow> json \<Rightarrow> json list \<Rightarrow> target \<Rightarrow> target option" where
  "fill P populatedFields [] final = Some final"
| "fill P populatedFields (q # qs) final =
     (case to_string P q of
        None \<Rightarrow> None
      | Some k \<Rightarrow>
          (case read_property P populatedFields k of
             None \<Rightarrow> None
           | Some p \<Rightarrow> fill P populatedFields qs (assign populatedFields k p final)))"

text \<open>
  The inner \<open>try\<close> block; \<open>None\<close> when it throws, and the own properties of
  \<open>finalPopulatedFields\<close> otherwise.
\<close>

definition populate_parse :: "platform \<Rightarrow> json list \<Rightarrow> json \<Rightarrow> (jsstring \<times> json option) list option" where
  "populate_parse P questions rawContent =
     (case rawContent of
        JStr raw \<Rightarrow>
          (case json_parse (trim (strip_fences raw)) of
             None \<Rightarrow> None
           | Some populatedFields \<Rightarrow>
               map_option fst (fill P populatedFields questions ([], PrototypeOf (JObj []))))
      | _ \<Rightarrow> None)"

definition populate_try :: "platform \<Rightarrow> json list \<Rightarrow> upstream \<Rightarrow> js_error + response" where
  "populate_try P questions up =
     (case up of
        NetworkFailure m \<Rightarrow> Inl (Rejection m)
      | Reply st st_text b \<Rightarrow>
          if \<not> ok st then relay_failure (str ''OpenRouter API error during form population: '') st st_text b
          else case b of
            Inl m \<Rightarrow> Inl (Rejection m)
          | Inr data \<Rightarrow>
              (case reply_content P data of
                 Throws \<Rightarrow> Inl TypeError
               | Content rawContent \<Rightarrow>
                   (case populate_parse P questions rawContent of
                      Some finalPopulatedFields \<Rightarrow>
                        Inr \<lparr>status = 200,
                             body = Payload (wire (JObj [(str ''populated_fields'',
                                               JObj (enumerable finalPopulatedFields))]))\<rparr>
                    | None \<Rightarrow>
                        (case rawContent of
                           JStr raw \<Rightarrow>
                             Inr \<lparr>status = 500,
                                  body = Failure (str ''AI response parsing failed. Raw AI output (truncated): ''
                                           @ take (min (length raw) 200) raw @ str ''...'') NoDetails\<rparr>
                         | _ \<Rightarrow> Inl TypeError))
               | Falsy \<Rightarrow>
                   Inr \<lparr>status = 500,
                        body = Failure (str ''AI did not provide content for form population.'') NoDetails\<rparr>))"

definition populate_request :: "jsstring \<Rightarrow> jsstring \<Rightarrow> jsstring list \<Rightarrow> outbound" where
  "populate_request k t lines =
     api_request OPENROUTER_API_URL k
       (JObj (completion MODEL_TO_USE
                [turn ''system'' (JStr populate_system),
                 turn ''user'' (JStr (populate_prompt t lines))]
                1 1000
              @ [(str ''response_format'', JObj [(str ''type'', JStr (str ''json_object''))])]))"

definition post_populate_form :: "platform \<Rightarrow> env \<Rightarrow> (outbound \<Rightarrow> upstream) \<Rightarrow> request_body
    \<Rightarrow> outbound list \<times> response" where
  "post_populate_form P env fetch req_body =
     (case req_body of
        None \<Rightarrow> ([], no_body)
      | Some req \<Rightarrow>
          (case (map_of req (str ''sourceText''), map_of req (str ''questions'')) of
             (Some sourceText, Some (JArr (q # qs))) \<Rightarrow>
               if \<not> truthy sourceText
               then ([], \<lparr>status = 400,
                          body = Failure (str ''Source text and a list of questions are required.'') NoDetails\<rparr>)
               else (case checkApiKey env of
                 Inl sent \<Rightarrow> ([], sent)
               | Inr k \<Rightarrow>
                   (case (to_string P sourceText, those_list (map (to_string P) (q # qs))) of
                      (Some t, Some lines) \<Rightarrow>
                        (let call = populate_request k t lines
                         in ([call],
                             case populate_try P (q # qs) (fetch call) of
                               Inr sent \<Rightarrow> sent
                             | Inl e \<Rightarrow> \<lparr>status = 500,
                                         body = Failure (str ''Failed to populate form from OpenRouter.'') (details_of e)\<rparr>))
                    | _ \<Rightarrow> ([], \<lparr>status = 500,
                                   body = Failure (str ''Failed to populate form from OpenRouter.'') EngineMessage\<rparr>)))
           | _ \<Rightarrow> ([], \<lparr>status = 400,
                          body = Failure (str ''Source text and a list of questions are required.'') NoDetails\<rparr>)))"

subsection \<open>\<open>POST /api/chat\<close>\<close>

definition chat_system :: jsstring where
  "chat_system = str ''You are a helpful and knowledgeable AI research assistant. Provide concise, accurate, and relevant information. If asked about something beyond your knowledge, admit it gracefully. Keep responses helpful and on topic.''"

definition chat_try :: "platform \<Rightarrow> upstream \<Rightarrow> js_error + response" where
  "chat_try P up =
     (case up of
        NetworkFailure m \<Rightarrow> Inl (Rejection m)
      | Reply st st_text b \<Rightarrow>
          if \<not> ok st then relay_failure (str ''OpenRouter API error during chat: '') st st_text b
          else case b of
            Inl m \<Rightarrow> Inl (Rejection m)
          | Inr data \<Rightarrow>
              (case reply_content P data of
                 Throws \<Rightarrow> Inl TypeError
               | Content aiMessageContent \<Rightarrow>
                   Inr \<lparr>status = 200, body = Payload (wire (JObj [(str ''reply'', aiMessageContent)]))\<rparr>
               | Falsy \<Rightarrow>
                   Inr \<lparr>status = 500,
                        body = Failure (str ''AI did not provide content for chat response.'') NoDetails\<rparr>))"

definition chat_request :: "jsstring \<Rightarrow> json list \<Rightarrow> outbound" where
  "chat_request k messages =
     api_request OPENROUTER_API_URL k
       (JObj (completion MODEL_TO_USE (turn ''system'' (JStr chat_system) # messages) 7 500))"

definition post_chat :: "platform \<Rightarrow> env \<Rightarrow> (outbound \<Rightarrow> upstream) \<Rightarrow> request_body
    \<Rightarrow> outbound list \<times> response" where
  "post_chat P env fetch req_body =
     (case req_body of
        None \<Rightarrow> ([], no_body)
      | Some req \<Rightarrow>
          (case map_of req (str ''messages'') of
             Some (JArr (m # ms)) \<Rightarrow>
               (case checkApiKey env of
                  Inl sent \<Rightarrow> ([], sent)
                | Inr k \<Rightarrow>
                    (let call = chat_request k (m # ms)
                     in ([call],
                         case chat_try P (fetch call) of
                           Inr sent \<Rightarrow> sent
                         | Inl e \<Rightarrow> \<lparr>status = 500,
                                     body = Failure (str ''Failed to get chat response from OpenRouter.'') (details_of e)\<rparr>)))
           | _ \<Rightarrow> ([], \<lparr>status = 400, body = Failure (str ''Messages array is required for chat.'') NoDetails\<rparr>)))"

subsection \<open>\<open>GET /\<close> and the start of the server\<close>

definition get_root :: response where
  "get_root = \<lparr>status = 200, body = PlainText (str ''Research Assistant Backend is running!'')\<rparr>"

text \<open>
  \<open>process.env.PORT || 5000\<close>, and the lines the callback of \<open>app.listen\<close> writes: it reads
  the key once more, to report it, and the server listens either way.
\<close>

definition PORT :: "env \<Rightarrow> jsstring" where
  "PORT env = (case env (str ''PORT'') of None \<Rightarrow> decimal 5000 | Some p \<Rightarrow> if p = [] then decimal 5000 else p)"

datatype console = Log jsstring | Error jsstring

definition listening :: "env \<Rightarrow> console list" where
  "listening env =
     [Log (str ''Research Assistant Backend server listening on port '' @ PORT env),
      (case env (str ''OPENROUTER_API_KEY'') of
         None \<Rightarrow> Error (str ''OpenRouter API Key IS NOT loaded. Please check your .env file.'')
       | Some k \<Rightarrow>
           if k = [] then Error (str ''OpenRouter API Key IS NOT loaded. Please check your .env file.'')
           else Log (str ''OpenRouter API Key is loaded.''))]"


section \<open>The server of \<open>src/unnamed/part_000\<close>\<close>

text \<open>
  The second source file defines the same constants, \<open>checkApiKey\<close> and the same six
  routes again, and configures the \<open>cors\<close> middleware differently. Its definitions are
  transcribed from its own text; their names end in \<open>_000\<close>.
\<close>


definition OPENROUTER_API_URL_000 :: jsstring where
  "OPENROUTER_API_URL_000 = str ''https://openrouter.ai/api/v1/chat/completions''"

definition MODEL_TO_USE_000 :: jsstring where
  "MODEL_TO_USE_000 = str ''openai/gpt-3.5-turbo''"

definition checkApiKey_000 :: "env \<Rightarrow> response + jsstring" where
  "checkApiKey_000 env =
     (case env (str ''OPENROUTER_API_KEY'') of
        None \<Rightarrow> Inl \<lparr>status = 500, body = Failure (str ''Server configuration error: API Key missing.'') NoDetails\<rparr>
      | Some k \<Rightarrow>
          if k = [] then Inl \<lparr>status = 500, body = Failure (str ''Server configuration error: API Key missing.'') NoDetails\<rparr>
          else Inr k)"

subsection \<open>\<open>POST /api/search\<close> in \<open>part_000\<close>\<close>

definition search_system_000 :: jsstring where
  "search_system_000 = str ''You are an AI research assistant. When asked a query, provide 2-3 concise, fictional search result-like summaries. Each summary should include a \"title\", \"source\" (e.g., Journal, Institute, Blog, Year), and a brief \"snippet\" (2-3 sentences). Present this data as a JSON array of objects. DO NOT include any conversational text outside the JSON.''"

definition with_id_000 :: "nat \<Rightarrow> json \<Rightarrow> json option" where
  "with_id_000 index item =
     (if item = JNull then None
      else Some (JObj (js_put (str ''id'')
                   (case get_own item (str ''id'') of
                      None \<Rightarrow> JNum (int index + 1) 0
                    | Some v \<Rightarrow> if truthy v then v else JNum (int index + 1) 0)
                   (own_props item))))"

definition search_parse_000 :: "json \<Rightarrow> json list option" where
  "search_parse_000 rawContent =
     (case rawContent of
        JStr raw \<Rightarrow>
          (case json_parse (trim (strip_fences raw)) of
             Some (JArr items) \<Rightarrow> those_list (map (\<lambda>i. with_id_000 i (items ! i)) [0..<length items])
           | _ \<Rightarrow> None)
      | _ \<Rightarrow> None)"

definition parse_failure_result_000 :: "jsstring \<Rightarrow> nat \<Rightarrow> jsstring \<Rightarrow> json" where
  "parse_failure_result_000 q yr raw =
     JObj [(str ''id'', JNum 1 0),
           (str ''title'', JStr (str ''AI Could Not Parse Results for \"'' @ q @ str ''\" (Backend Error)'')),
           (str ''source'', JStr (str ''OpenRouter API Parsing Issue, '' @ decimal yr)),
           (str ''snippet'', JStr (str ''The AI responded, but its output could not be formatted as expected by the backend. Raw response (truncated): '' @ take (min (length raw) 200) raw @ str ''...''))]"

definition no_content_result_000 :: "jsstring \<Rightarrow> nat \<Rightarrow> json" where
  "no_content_result_000 q yr =
     JObj [(str ''id'', JNum 1 0),
           (str ''title'', JStr (str ''No Relevant AI Response for \"'' @ q @ str ''\" (Backend Search)'')),
           (str ''source'', JStr (str ''OpenRouter API, '' @ decimal yr)),
           (str ''snippet'', JStr (str ''The AI did not provide any content for your search query via the backend.''))]"

definition search_results_000 :: "platform \<Rightarrow> nat \<Rightarrow> json \<Rightarrow> json \<Rightarrow> js_error + json list" where
  "search_results_000 P yr query data =
     (case reply_content P data of
        Throws \<Rightarrow> Inl TypeError
      | Content rawContent \<Rightarrow>
          (case search_parse_000 rawContent of
             Some results \<Rightarrow> Inr results
           | None \<Rightarrow>
               (case to_string P query of
                  None \<Rightarrow> Inl TypeError
                | Some q \<Rightarrow>
                    (case rawContent of
                       JStr raw \<Rightarrow> Inr [parse_failure_result_000 q yr raw]
                     | _ \<Rightarrow> Inl TypeError)))
      | Falsy \<Rightarrow>
          (case to_string P query of
             None \<Rightarrow> Inl TypeError
           | Some q \<Rightarrow> Inr [no_content_result_000 q yr]))"

definition search_try_000 :: "platform \<Rightarrow> nat \<Rightarrow> json \<Rightarrow> upstream \<Rightarrow> js_error + response" where
  "search_try_000 P yr query up =
     (case up of
        NetworkFailure m \<Rightarrow> Inl (Rejection m)
      | Reply st st_text b \<Rightarrow>
          if \<not> ok st then relay_failure (str ''OpenRouter API error: '') st st_text b
          else case b of
            Inl m \<Rightarrow> Inl (Rejection m)
          | Inr data \<Rightarrow>
              (case search_results_000 P yr query data of
                 Inl e \<Rightarrow> Inl e
               | Inr results \<Rightarrow>
                   Inr \<lparr>status = 200, body = Payload (wire (JObj [(str ''results'', JArr results)]))\<rparr>))"

definition search_request_000 :: "jsstring \<Rightarrow> json \<Rightarrow> outbound" where
  "search_request_000 k query =
     api_request OPENROUTER_API_URL_000 k
       (JObj (completion MODEL_TO_USE_000 [turn ''system'' (JStr search_system_000), turn ''user'' query] 7 500))"

definition post_search_000 :: "platform \<Rightarrow> env \<Rightarrow> nat \<Rightarrow> (outbound \<Rightarrow> upstream) \<Rightarrow> request_body
    \<Rightarrow> outbound list \<times> response" where
  "post_search_000 P env yr fetch req_body =
     (case req_body of
        None \<Rightarrow> ([], no_body)
      | Some req \<Rightarrow>
          (case map_of req (str ''query'') of
             None \<Rightarrow> ([], \<lparr>status = 400, body = Failure (str ''Search query is required.'') NoDetails\<rparr>)
           | Some query \<Rightarrow>
               if \<not> truthy query
               then ([], \<lparr>status = 400, body = Failure (str ''Search query is required.'') NoDetails\<rparr>)
               else case checkApiKey_000 env of
                 Inl sent \<Rightarrow> ([], sent)
               | Inr k \<Rightarrow>
                   (let call = search_request_000 k query
                    in ([call],
                        case search_try_000 P yr query (fetch call) of
                          Inr sent \<Rightarrow> sent
                        | Inl e \<Rightarrow> \<lparr>status = 500,
                                    body = Failure (str ''Failed to fetch search results from OpenRouter.'') (details_of e)\<rparr>))))"

subsection \<open>\<open>POST /api/extract\<close> in \<open>part_000\<close>\<close>

definition extract_system_000 :: jsstring where
  "extract_system_000 = str ''You are an AI assistant specialized in extracting key information and structuring it into a concise outline. Format the outline using bullet points and sub-bullet points. Do NOT include any conversational text, only the outline.''"

definition extract_try_000 :: "platform \<Rightarrow> upstream \<Rightarrow> js_error + response" where
  "extract_try_000 P up =
     (case up of
        NetworkFailure m \<Rightarrow> Inl (Rejection m)
      | Reply st st_text b \<Rightarrow>
          if \<not> ok st then relay_failure (str ''OpenRouter API error during extraction: '') st st_text b
          else case b of
            Inl m \<Rightarrow> Inl (Rejection m)
          | Inr data \<Rightarrow>
              (case reply_content P data of
                 Throws \<Rightarrow> Inl TypeError
               | Content outlineContent \<Rightarrow>
                   Inr \<lparr>status = 200, body = Payload (wire (JObj [(str ''outline'', outlineContent)]))\<rparr>
               | Falsy \<Rightarrow>
                   Inr \<lparr>status = 500, body = Failure (str ''AI did not provide outline content.'') NoDetails\<rparr>))"

definition extract_request_000 :: "jsstring \<Rightarrow> jsstring \<Rightarrow> outbound" where
  "extract_request_000 k t =
     api_request OPENROUTER_API_URL_000 k
       (JObj (completion MODEL_TO_USE_000
          [turn ''system'' (JStr extract_system_000),
           turn ''user'' (JStr (str ''Create a concise outline from the following text:'' @ [10, 10] @ t))]
          3 300))"

definition post_extract_000 :: "platform \<Rightarrow> env \<Rightarrow> (outbound \<Rightarrow> upstream) \<Rightarrow> request_body
    \<Rightarrow> outbound list \<times> response" where
  "post_extract_000 P env fetch req_body =
     (case req_body of
        None \<Rightarrow> ([], no_body)
      | Some req \<Rightarrow>
          (case map_of req (str ''textToExtract'') of
             None \<Rightarrow> ([], \<lparr>status = 400, body = Failure (str ''Text to extract is required.'') NoDetails\<rparr>)
           | Some textToExtract \<Rightarrow>
               if \<not> truthy textToExtract
               then ([], \<lparr>status = 400, body = Failure (str ''Text to extract is required.'') NoDetails\<rparr>)
               else case checkApiKey_000 env of
                 Inl sent \<Rightarrow> ([], sent)
               | Inr k \<Rightarrow>
                   (case to_string P textToExtract of
                      None \<Rightarrow> ([], \<lparr>status = 500,
                                     body = Failure (str ''Failed to generate outline from OpenRouter.'') EngineMessage\<rparr>)
                    | Some t \<Rightarrow>
                        (let call = extract_request_000 k t
                         in ([call],
                             case extract_try_000 P (fetch call) of
                               Inr sent \<Rightarrow> sent
                             | Inl e \<Rightarrow> \<lparr>status = 500,
                                         body = Failure (str ''Failed to generate outline from OpenRouter.'') (details_of e)\<rparr>)))))"

subsection \<open>\<open>POST /api/insight\<close> in \<open>part_000\<close>\<close>

definition insight_system_000 :: jsstring where
  "insight_system_000 = str ''You are an AI research assistant. Given a piece of text, identify the most significant, non-obvious, and actionable insight. Frame it as a concise, thought-provoking statement or a short paragraph. Do NOT include any conversational text outside of the insight itself.''"

definition insight_try_000 :: "platform \<Rightarrow> upstream \<Rightarrow> js_error + response" where
  "insight_try_000 P up =
     (case up of
        NetworkFailure m \<Rightarrow> Inl (Rejection m)
      | Reply st st_text b \<Rightarrow>
          if \<not> ok st then relay_failure (str ''OpenRouter API error during insight generation: '') st st_text b
          else case b of
            Inl m \<Rightarrow> Inl (Rejection m)
          | Inr data \<Rightarrow>
              (case reply_content P data of
                 Throws \<Rightarrow> Inl TypeError
               | Content insightContent \<Rightarrow>
                   Inr \<lparr>status = 200, body = Payload (wire (JObj [(str ''insight'', insightContent)]))\<rparr>
               | Falsy \<Rightarrow>
                   Inr \<lparr>status = 500, body = Failure (str ''AI did not provide insight content.'') NoDetails\<rparr>))"

definition insight_request_000 :: "jsstring \<Rightarrow> jsstring \<Rightarrow> outbound" where
  "insight_request_000 k t =
     api_request OPENROUTER_API_URL_000 k
       (JObj (completion MODEL_TO_USE_000
          [turn ''system'' (JStr insight_system_000),
           turn ''user'' (JStr (str ''Generate a key insight from the following text:'' @ [10, 10] @ t))]
          7 150))"

definition post_insight_000 :: "platform \<Rightarrow> env \<Rightarrow> (outbound \<Rightarrow> upstream) \<Rightarrow> request_body
    \<Rightarrow> outbound list \<times> response" where
  "post_insight_000 P env fetch req_body =
     (case req_body of
        None \<Rightarrow> ([], no_body)
      | Some req \<Rightarrow>
          (case map_of req (str ''textForInsight'') of
             None \<Rightarrow> ([], \<lparr>status = 400, body = Failure (str ''Text for insight is required.'') NoDetails\<rparr>)
           | Some textForInsight \<Rightarrow>
               if \<not> truthy textForInsight
               then ([], \<lparr>status = 400, body = Failure (str ''Text for insight is required.'') NoDetails\<rparr>)
               else case checkApiKey_000 env of
                 Inl sent \<Rightarrow> ([], sent)
               | Inr k \<Rightarrow>
                   (case to_string P textForInsight of
                      None \<Rightarrow> ([], \<lparr>status = 500,
                                     body = Failure (str ''Failed to generate insight from OpenRouter.'') EngineMessage\<rparr>)
                    | Some t \<Rightarrow>
                        (let call = insight_request_000 k t
                         in ([call],
                             case insight_try_000 P (fetch call) of
                               Inr sent \<Rightarrow> sent
                             | Inl e \<Rightarrow> \<lparr>status = 500,
                                         body = Failure (str ''Failed to generate insight from OpenRouter.'') (details_of e)\<rparr>)))))"

subsection \<open>\<open>POST /api/populate_form\<close> in \<open>part_000\<close>\<close>

definition populate_system_000 :: jsstring where
  "populate_system_000 = str ''You are an expert data extractor. Your task is to precisely answer given questions based ONLY on the provided source text. Respond strictly in the specified JSON format. If information for a question is not found, use an empty string as the value.''"

definition populate_prompt_000 :: "jsstring \<Rightarrow> jsstring list \<Rightarrow> jsstring" where
  "populate_prompt_000 sourceText qs =
     str ''Based on the following source text, answer each of the following questions concisely. Provide only the answer for each question, or leave it blank if the information is not directly present. Format your complete response as a JSON object where keys are the exact questions and values are the extracted answers. Ensure the JSON is valid and contains no extra text.''
     @ [10, 10] @ str ''    Source Text:''
     @ [10] @ str ''    ---''
     @ [10] @ str ''    '' @ sourceText
     @ [10] @ str ''    ---''
     @ [10, 10] @ str ''    Questions to Answer:''
     @ [10] @ str ''    '' @ join_with [10] (map (\<lambda>q. str ''- '' @ q) qs)
     @ [10, 10] @ str ''    Example JSON structure:''
     @ [10] @ str ''    {''
     @ [10] @ str ''      \"Question 1\": \"Answer to Q1\",''
     @ [10] @ str ''      \"Question 2\": \"Answer to Q2\",''
     @ [10] @ str ''      \"Question 3\": \"\"''
     @ [10] @ str ''    }''
     @ [10] @ str ''    ''"

definition answer_000 :: "json \<Rightarrow> jsstring \<Rightarrow> property \<Rightarrow> json option" where
  "answer_000 populatedFields k p =
     (case p of
        Own x \<Rightarrow> Some x
      | Undefined \<Rightarrow> Some (JStr [])
      | Inherited \<Rightarrow> if k = str ''__proto__'' then Some (prototype_json populatedFields) else None)"

definition assign_000 :: "json \<Rightarrow> jsstring \<Rightarrow> property \<Rightarrow> target \<Rightarrow> target" where
  "assign_000 populatedFields k p final =
     (case final of
        (own, proto) \<Rightarrow>
          if k \<in> fst ` set own then (js_put k (answer_000 populatedFields k p) own, proto)
          else case chain_slot proto k of
            Settable \<Rightarrow> (js_put k (answer_000 populatedFields k p) own, proto)
          | ReadOnly \<Rightarrow> (own, proto)
          | ProtoSetter \<Rightarrow> (own, set_prototype populatedFields p proto))"

fun fill_000 :: "platform \<Rightarrow> json \<Rightarrow> json list \<Rightarrow> target \<Rightarrow> target option" where
  "fill_000 P populatedFields [] final = Some final"
| "fill_000 P populatedFields (q # qs) final =
     (case to_string P q of
        None \<Rightarrow> None
      | Some k \<Rightarrow>
          (case read_property P populatedFields k of
             None \<Rightarrow> None
           | Some p \<Rightarrow> fill_000 P populatedFields qs (assign_000 populatedFields k p final)))"

definition populate_parse_000 :: "platform \<Rightarrow> json list \<Rightarrow> json \<Rightarrow> (jsstring \<times> json option) list option" where
  "populate_parse_000 P questions rawContent =
     (case rawContent of
        JStr raw \<Rightarrow>
          (case json_parse (trim (strip_fences raw)) of
             None \<Rightarrow> None
           | Some populatedFields \<Rightarrow>
               map_option fst (fill_000 P populatedFields questions ([], PrototypeOf (JObj []))))
      | _ \<Rightarrow> None)"

definition populate_try_000 :: "platform \<Rightarrow> json list \<Rightarrow> upstream \<Rightarrow> js_error + response" where
  "populate_try_000 P questions up =
     (case up of
        NetworkFailure m \<Rightarrow> Inl (Rejection m)
      | Reply st st_text b \<Rightarrow>
          if \<not> ok st then relay_failure (str ''OpenRouter API error during form population: '') st st_text b
          else case b of
            Inl m \<Rightarrow> Inl (Rejection m)
          | Inr data \<Rightarrow>
              (case reply_content P data of
                 Throws \<Rightarrow> Inl TypeError
               | Content rawContent \<Rightarrow>
                   (case populate_parse_000 P questions rawContent of
                      Some finalPopulatedFields \<Rightarrow>
                        Inr \<lparr>status = 200,
                             body = Payload (wire (JObj [(str ''populated_fields'',
                                               JObj (enumerable finalPopulatedFields))]))\<rparr>
                    | None \<Rightarrow>
                        (case rawContent of
                           JStr raw \<Rightarrow>
                             Inr \<lparr>status = 500,
                                  body = Failure (str ''AI response parsing failed. Raw AI output (truncated): ''
                                           @ take (min (length raw) 200) raw @ str ''...'') NoDetails\<rparr>
                         | _ \<Rightarrow> Inl TypeError))
               | Falsy \<Rightarrow>
                   Inr \<lparr>status = 500,
                        body = Failure (str ''AI did not provide content for form population.'') NoDetails\<rparr>))"

definition populate_request_000 :: "jsstring \<Rightarrow> jsstring \<Rightarrow> jsstring list \<Rightarrow> outbound" where
  "populate_request_000 k t lines =
     api_request OPENROUTER_API_URL_000 k
       (JObj (completion MODEL_TO_USE_000
                [turn ''system'' (JStr populate_system_000),
                 turn ''user'' (JStr (populate_prompt_000 t lines))]
                1 1000
              @ [(str ''response_format'', JObj [(str ''type'', JStr (str ''json_object''))])]))"

definition post_populate_form_000 :: "platform \<Rightarrow> env \<Rightarrow> (outbound \<Rightarrow> upstream) \<Rightarrow> request_body
    \<Rightarrow> outbound list \<times> response" where
  "post_populate_form_000 P env fetch req_body =
     (case req_body of
        None \<Rightarrow> ([], no_body)
      | Some req \<Rightarrow>
          (case (map_of req (str ''sourceText''), map_of req (str ''questions'')) of
             (Some sourceText, Some (JArr (q # qs))) \<Rightarrow>
               if \<not> truthy sourceText
               then ([], \<lparr>status = 400,
                          body = Failure (str ''Source text and a list of questions are required.'') NoDetails\<rparr>)
               else (case checkApiKey_000 env of
                 Inl sent \<Rightarrow> ([], sent)
               | Inr k \<Rightarrow>
                   (case (to_string P sourceText, those_list (map (to_string P) (q # qs))) of
                      (Some t, Some lines) \<Rightarrow>
                        (let call = populate_request_000 k t lines
                         in ([call],
                             case populate_try_000 P (q # qs) (fetch call) of
                               Inr sent \<Rightarrow> sent
                             | Inl e \<Rightarrow> \<lparr>status = 500,
                                         body = Failure (str ''Failed to populate form from OpenRouter.'') (details_of e)\<rparr>))
                    | _ \<Rightarrow> ([], \<lparr>status = 500,
                                   body = Failure (str ''Failed to populate form from OpenRouter.'') EngineMessage\<rparr>)))
           | _ \<Rightarrow> ([], \<lparr>status = 400,
                          body = Failure (str ''Source text and a list of questions are required.'') NoDetails\<rparr>)))"

subsection \<open>\<open>POST /api/chat\<close> in \<open>part_000\<close>\<close>

definition chat_system_000 :: jsstring where
  "chat_system_000 = str ''You are a helpful and knowledgeable AI research assistant. Provide concise, accurate, and relevant information. If asked about something beyond your knowledge, admit it gracefully. Keep responses helpful and on topic.''"

definition chat_try_000 :: "platform \<Rightarrow> upstream \<Rightarrow> js_error + response" where
  "chat_try_000 P up =
     (case up of
        NetworkFailure m \<Rightarrow> Inl (Rejection m)
      | Reply st st_text b \<Rightarrow>
          if \<not> ok st then relay_failure (str ''OpenRouter API error during chat: '') st st_text b
          else case b of
            Inl m \<Rightarrow> Inl (Rejection m)
          | Inr data \<Rightarrow>
              (case reply_content P data of
                 Throws \<Rightarrow> Inl TypeError
               | Content aiMessageContent \<Rightarrow>
                   Inr \<lparr>status = 200, body = Payload (wire (JObj [(str ''reply'', aiMessageContent)]))\<rparr>
               | Falsy \<Rightarrow>
                   Inr \<lparr>status = 500,
                        body = Failure (str ''AI did not provide content for chat response.'') NoDetails\<rparr>))"

definition chat_request_000 :: "jsstring \<Rightarrow> json list \<Rightarrow> outbound" where
  "chat_request_000 k messages =
     api_request OPENROUTER_API_URL_000 k
       (JObj (completion MODEL_TO_USE_000 (turn ''system'' (JStr chat_system_000) # messages) 7 500))"

definition post_chat_000 :: "platform \<Rightarrow> env \<Rightarrow> (outbound \<Rightarrow> upstream) \<Rightarrow> request_body
    \<Rightarrow> outbound list \<times> response" where
  "post_chat_000 P env fetch req_body =
     (case req_body of
        None \<Rightarrow> ([], no_body)
      | Some req \<Rightarrow>
          (case map_of req (str ''messages'') of
             Some (JArr (m # ms)) \<Rightarrow>
               (case checkApiKey_000 env of
                  Inl sent \<Rightarrow> ([], sent)
                | Inr k \<Rightarrow>
                    (let call = chat_request_000 k (m # ms)
                     in ([call],
                         case chat_try_000 P (fetch call) of
                           Inr sent \<Rightarrow> sent
                         | Inl e \<Rightarrow> \<lparr>status = 500,
                                     body = Failure (str ''Failed to get chat response from OpenRouter.'') (details_of e)\<rparr>)))
           | _ \<Rightarrow> ([], \<lparr>status = 400, body = Failure (str ''Messages array is required for chat.'') NoDetails\<rparr>)))"

subsection \<open>\<open>GET /\<close> and the start of the server in \<open>part_000\<close>\<close>

definition get_root_000 :: response where
  "get_root_000 = \<lparr>status = 200, body = PlainText (str ''Research Assistant Backend is running!'')\<rparr>"

definition PORT_000 :: "env \<Rightarrow> jsstring" where
  "PORT_000 env = (case env (str ''PORT'') of None \<Rightarrow> decimal 5000 | Some p \<Rightarrow> if p = [] then decimal 5000 else p)"

definition listening_000 :: "env \<Rightarrow> console list" where
  "listening_000 env =
     [Log (str ''Research Assistant Backend server listening on port '' @ PORT_000 env),
      (case env (str ''OPENROUTER_API_KEY'') of
         None \<Rightarrow> Error (str ''OpenRouter API Key IS NOT loaded. Please check your .env file.'')
       | Some k \<Rightarrow>
           if k = [] then Error (str ''OpenRouter API Key IS NOT loaded. Please check your .env file.'')
           else Log (str ''OpenRouter API Key is loaded.''))]"

section \<open>The middleware in front of the routes\<close>

text \<open>
  Both files install the \<open>cors\<close> middleware before the routes. It decides from the
  \<open>Origin\<close> header of the request (\<open>None\<close> when the request has none): the request goes on
  to its route, with the value of \<open>Access-Control-Allow-Origin\<close> (\<open>None\<close> when the header
  is not set) and whether \<open>Access-Control-Allow-Credentials\<close> is set, or the middleware
  passes an error on and the route does not run.
\<close>

datatype admission = Admitted "jsstring option" bool | Refused jsstring

text \<open>
  \<open>src/server.js\<close>: \<open>app.use(cors())\<close>, the defaults of the middleware: every origin, the
  wildcard as allowed origin, no credentials.
\<close>

definition cors_server_js :: "jsstring option \<Rightarrow> admission" where
  "cors_server_js origin = Admitted (Some (str ''*'')) False"

text \<open>
  \<open>part_000\<close>: the option \<open>origin\<close> is the function below, \<open>credentials\<close> is \<open>true\<close>. The function
  calls back with \<open>true\<close> when \<open>!origin || allowedOrigins.includes(origin)\<close> and with
  \<open>new Error('Not allowed by CORS')\<close> otherwise. An admitted origin is reflected, when
  there is one.
\<close>

definition allowedOrigins :: "jsstring list" where
  "allowedOrigins =
     [str ''http://localhost:3000'',
      str ''https://research-assistant-tims-projects-d59677e7.vercel.app'']"

definition origin_callback :: "jsstring option \<Rightarrow> jsstring + bool" where
  "origin_callback origin =
     (case origin of
        None \<Rightarrow> Inr True
      | Some orig \<Rightarrow>
          if orig = [] \<or> orig \<in> set allowedOrigins then Inr True
          else Inl (str ''Not allowed by CORS''))"

definition cors_part_000 :: "jsstring option \<Rightarrow> admission" where
  "cors_part_000 origin =
     (case origin_callback origin of
        Inl m \<Rightarrow> Refused m
      | Inr allow \<Rightarrow>
          Admitted (case origin of None \<Rightarrow> None | Some orig \<Rightarrow> if orig = [] then None else Some orig) True)"

text \<open>
  A request, with its route. An error passed on by a middleware reaches the default
  error handler of the framework, which answers 500 with a page for the error.
\<close>

datatype route = Search | Extract | Insight | PopulateForm | Chat | Root

definition error_page :: "jsstring \<Rightarrow> response" where
  "error_page m = \<lparr>status = 500, body = ErrorPage m\<rparr>"

definition app_server_js :: "platform \<Rightarrow> env \<Rightarrow> nat \<Rightarrow> (outbound \<Rightarrow> upstream) \<Rightarrow> jsstring option \<Rightarrow> route
    \<Rightarrow> request_body \<Rightarrow> admission \<times> outbound list \<times> response" where
  "app_server_js P env yr fetch origin r req =
     (case cors_server_js origin of
        Refused m \<Rightarrow> (Refused m, [], error_page m)
      | Admitted a c \<Rightarrow>
          (Admitted a c,
           case r of
             Search \<Rightarrow> post_search P env yr fetch req
           | Extract \<Rightarrow> post_extract P env fetch req
           | Insight \<Rightarrow> post_insight P env fetch req
           | PopulateForm \<Rightarrow> post_populate_form P env fetch req
           | Chat \<Rightarrow> post_chat P env fetch req
           | Root \<Rightarrow> ([], get_root)))"

definition app_part_000 :: "platform \<Rightarrow> env \<Rightarrow> nat \<Rightarrow> (outbound \<Rightarrow> upstream) \<Rightarrow> jsstring option \<Rightarrow> route
    \<Rightarrow> request_body \<Rightarrow> admission \<times> outbound list \<times> response" where
  "app_part_000 P env yr fetch origin r req =
     (case cors_part_000 origin of
        Refused m \<Rightarrow> (Refused m, [], error_page m)
      | Admitted a c \<Rightarrow>
          (Admitted a c,
           case r of
             Search \<Rightarrow> post_search_000 P env yr fetch req
           | Extract \<Rightarrow> post_extract_000 P env fetch req
           | Insight \<Rightarrow> post_insight_000 P env fetch req
           | PopulateForm \<Rightarrow> post_populate_form_000 P env fetch req
           | Chat \<Rightarrow> post_chat_000 P env fetch req
           | Root \<Rightarrow> ([], get_root_000)))"

section \<open>Values for the examples\<close>

text \<open>
  One instance of the parameters of the runtime, for closed examples: decimal digits for
  an integer, and no member beyond those of \<open>Object.prototype\<close>. No example applies it
  where the runtime would differ.
\<close>

definition example_platform :: platform where
  "example_platform =
     \<lparr>number_to_string = (\<lambda>m e. decimal (nat \<bar>m\<bar>)),
      string_positive = (\<lambda>s. False),
      builtin_member = (\<lambda>v k. False)\<rparr>"

text \<open>An environment with the key set, and one without.\<close>

definition env_with_key :: env where
  "env_with_key = map_of [(str ''OPENROUTER_API_KEY'', str ''sk-or-1'')]"

definition env_without_key :: env where
  "env_without_key = map_of []"

text \<open>An upstream that gives the same answer to every request.\<close>

definition answering :: "upstream \<Rightarrow> outbound \<Rightarrow> upstream" where
  "answering u call = u"

text \<open>The reply of the upstream API with one choice, whose message has the content given.\<close>

definition completion_reply :: "json \<Rightarrow> upstream" where
  "completion_reply c =
     Reply 200 (str ''OK'')
       (Inr (JObj [(str ''choices'', JArr [JObj [(str ''message'', turn ''assistant'' c)]])]))"

section \<open>Properties of the handlers\<close>

subsection \<open>String constants\<close>

lemma str_inject [simp]: "str a = str b \<longleftrightarrow> a = b"
  by (simp add: str_def inj_map_eq_map[OF inj_of_char])

lemma str_empty [simp]: "str s = [] \<longleftrightarrow> s = []" "[] = str s \<longleftrightarrow> s = []"
  by (auto simp: str_def)

lemma str_unfold: "str [] = []" "str (c # cs) = of_char c # str cs"
  by (simp_all add: str_def)

subsection \<open>Chat: the messages sent upstream\<close>



subsection \<open>Validation of the request\<close>




subsection \<open>The key in the environment\<close>

text \<open>
  Claim C7. Without \<open>OPENROUTER_API_KEY\<close> in the environment, each of the five \<open>POST\<close>
  routes answers a request that passes its validation with status 500 and the
  configuration message, and sends nothing upstream. The server starts all the same: the
  callback of \<open>app.listen\<close> reports the missing key on the error stream, and \<open>GET /\<close>
  answers 200.
\<close>

theorem missing_key_refused:
  assumes "env (str ''OPENROUTER_API_KEY'') = None"
  shows "(\<forall>query. map_of req (str ''query'') = Some query \<and> truthy query \<longrightarrow>
            post_search P env yr fetch (Some req)
              = ([], \<lparr>status = 500, body = Failure (str ''Server configuration error: API Key missing.'') NoDetails\<rparr>))
       \<and> (\<forall>t. map_of req (str ''textToExtract'') = Some t \<and> truthy t \<longrightarrow>
            post_extract P env fetch (Some req)
              = ([], \<lparr>status = 500, body = Failure (str ''Server configuration error: API Key missing.'') NoDetails\<rparr>))
       \<and> (\<forall>t. map_of req (str ''textForInsight'') = Some t \<and> truthy t \<longrightarrow>
            post_insight P env fetch (Some req)
              = ([], \<lparr>status = 500, body = Failure (str ''Server configuration error: API Key missing.'') NoDetails\<rparr>))
       \<and> (\<forall>t q qs. map_of req (str ''sourceText'') = Some t \<and> truthy t
              \<and> map_of req (str ''questions'') = Some (JArr (q # qs)) \<longrightarrow>
            post_populate_form P env fetch (Some req)
              = ([], \<lparr>status = 500, body = Failure (str ''Server configuration error: API Key missing.'') NoDetails\<rparr>))
       \<and> (\<forall>m ms. map_of req (str ''messages'') = Some (JArr (m # ms)) \<longrightarrow>
            post_chat P env fetch (Some req)
              = ([], \<lparr>status = 500, body = Failure (str ''Server configuration error: API Key missing.'') NoDetails\<rparr>))
       \<and> get_root = \<lparr>status = 200, body = PlainText (str ''Research Assistant Backend is running!'')\<rparr>
       \<and> listening env
            = [Log (str ''Research Assistant Backend server listening on port '' @ PORT env),
               Error (str ''OpenRouter API Key IS NOT loaded. Please check your .env file.'')]"
  using assms
  by (auto simp: post_search_def post_extract_def post_insight_def post_populate_form_def post_chat_def
        checkApiKey_def get_root_def listening_def)

theorem missing_key_refused_witness:
  "env_without_key (str ''OPENROUTER_API_KEY'') = None
   \<and> post_search example_platform env_without_key 2025 (answering (NetworkFailure []))
         (Some [(str ''query'', JStr (str ''x''))])
       = ([], \<lparr>status = 500, body = Failure (str ''Server configuration error: API Key missing.'') NoDetails\<rparr>)
   \<and> post_chat example_platform env_without_key (answering (NetworkFailure []))
         (Some [(str ''messages'', JArr [JNull])])
       = ([], \<lparr>status = 500, body = Failure (str ''Server configuration error: API Key missing.'') NoDetails\<rparr>)"
  using missing_key_refused [of env_without_key "[(str ''query'', JStr (str ''x''))]" example_platform 2025
      "answering (NetworkFailure [])"]
    missing_key_refused [of env_without_key "[(str ''messages'', JArr [JNull])]" example_platform 2025
      "answering (NetworkFailure [])"]
  by (simp add: env_without_key_def)




subsection \<open>The two source files\<close>

text \<open>Each definition of \<open>part_000\<close> equals the definition of \<open>src/server.js\<close> of the same name.\<close>

lemma same_constants:
  "OPENROUTER_API_URL_000 = OPENROUTER_API_URL" "MODEL_TO_USE_000 = MODEL_TO_USE"
  "search_system_000 = search_system" "extract_system_000 = extract_system"
  "insight_system_000 = insight_system" "populate_system_000 = populate_system"
  "chat_system_000 = chat_system" "get_root_000 = get_root"
  unfolding OPENROUTER_API_URL_000_def OPENROUTER_API_URL_def MODEL_TO_USE_000_def MODEL_TO_USE_def
      search_system_000_def search_system_def extract_system_000_def extract_system_def
      insight_system_000_def insight_system_def populate_system_000_def populate_system_def
      chat_system_000_def chat_system_def get_root_000_def get_root_def
  by (rule refl)+

lemma same_checkApiKey: "checkApiKey_000 = checkApiKey"
  by (intro ext; unfold checkApiKey_000_def checkApiKey_def; rule refl)

lemma same_requests:
  "search_request_000 = search_request" "extract_request_000 = extract_request"
  "insight_request_000 = insight_request" "populate_request_000 = populate_request"
  "chat_request_000 = chat_request"
  by (intro ext; unfold same_constants search_request_000_def search_request_def
      extract_request_000_def extract_request_def insight_request_000_def insight_request_def
      populate_request_000_def populate_request_def populate_prompt_000_def populate_prompt_def
      chat_request_000_def chat_request_def; rule refl)+

lemma same_search_parts:
  "with_id_000 = with_id" "parse_failure_result_000 = parse_failure_result"
  "no_content_result_000 = no_content_result"
  by (intro ext; unfold with_id_000_def with_id_def parse_failure_result_000_def parse_failure_result_def
      no_content_result_000_def no_content_result_def; rule refl)+

lemma same_search_parse: "search_parse_000 = search_parse"
  by (intro ext; unfold search_parse_000_def search_parse_def same_search_parts; rule refl)

lemma same_search_results: "search_results_000 = search_results"
  by (intro ext; unfold search_results_000_def search_results_def same_search_parts same_search_parse; rule refl)

lemma same_search_try: "search_try_000 = search_try"
  by (intro ext; unfold search_try_000_def search_try_def same_search_results; rule refl)

lemma same_tries:
  "extract_try_000 = extract_try" "insight_try_000 = insight_try" "chat_try_000 = chat_try"
  by (intro ext; unfold extract_try_000_def extract_try_def insight_try_000_def insight_try_def
      chat_try_000_def chat_try_def; rule refl)+

lemma same_answer: "answer_000 = answer"
  by (intro ext; unfold answer_000_def answer_def; rule refl)

lemma same_assign: "assign_000 = assign"
  by (intro ext; unfold assign_000_def assign_def same_answer; rule refl)

lemma same_fill: "fill_000 P v qs final = fill P v qs final"
  by (induction qs arbitrary: final) (simp_all add: same_assign split: option.splits)

lemma same_populate_parse: "populate_parse_000 = populate_parse"
  by (intro ext; unfold populate_parse_000_def populate_parse_def same_fill; rule refl)

lemma same_populate_try: "populate_try_000 = populate_try"
  by (intro ext; unfold populate_try_000_def populate_try_def same_populate_parse; rule refl)

text \<open>
  Claim C10. Route for route, the handlers of the two files are the same function: for
  every environment, upstream behaviour and request body, the handler of \<open>part_000\<close> and
  the handler of \<open>src/server.js\<close> send the same requests upstream and give the same
  response (status and body), for the five \<open>POST\<close> routes and for \<open>GET /\<close>; so do
  \<open>checkApiKey\<close> and the start of the server. The files differ in the \<open>cors\<close> middleware only:
  whenever the middleware of \<open>part_000\<close> lets a request through, the two servers answer
  it alike.
\<close>

theorem files_agree:
  "post_search_000 P env yr fetch req = post_search P env yr fetch req
   \<and> post_extract_000 P env fetch req = post_extract P env fetch req
   \<and> post_insight_000 P env fetch req = post_insight P env fetch req
   \<and> post_populate_form_000 P env fetch req = post_populate_form P env fetch req
   \<and> post_chat_000 P env fetch req = post_chat P env fetch req
   \<and> get_root_000 = get_root
   \<and> checkApiKey_000 env = checkApiKey env
   \<and> listening_000 env = listening env
   \<and> (\<forall>origin r. fst (app_part_000 P env yr fetch origin r req) \<noteq> Refused (str ''Not allowed by CORS'') \<longrightarrow>
          snd (app_part_000 P env yr fetch origin r req) = snd (app_server_js P env yr fetch origin r req))"
proof -
  have 1: "post_search_000 P env yr fetch req = post_search P env yr fetch req"
    unfolding post_search_000_def post_search_def same_checkApiKey same_requests same_search_try by (rule refl)
  have 2: "post_extract_000 P env fetch req = post_extract P env fetch req"
    unfolding post_extract_000_def post_extract_def same_checkApiKey same_requests same_tries by (rule refl)
  have 3: "post_insight_000 P env fetch req = post_insight P env fetch req"
    unfolding post_insight_000_def post_insight_def same_checkApiKey same_requests same_tries by (rule refl)
  have 4: "post_populate_form_000 P env fetch req = post_populate_form P env fetch req"
    unfolding post_populate_form_000_def post_populate_form_def same_checkApiKey same_requests
        same_populate_try by (rule refl)
  have 5: "post_chat_000 P env fetch req = post_chat P env fetch req"
    unfolding post_chat_000_def post_chat_def same_checkApiKey same_requests same_tries by (rule refl)
  have 6: "listening_000 env = listening env"
    unfolding listening_000_def listening_def PORT_000_def PORT_def by (rule refl)
  have 7: "snd (app_part_000 P env yr fetch origin r req) = snd (app_server_js P env yr fetch origin r req)"
    if "fst (app_part_000 P env yr fetch origin r req) \<noteq> Refused (str ''Not allowed by CORS'')" for origin r
    using that
    by (auto simp: app_part_000_def app_server_js_def cors_part_000_def cors_server_js_def origin_callback_def
        1 2 3 4 5 same_constants split: option.splits if_splits route.splits)
  show ?thesis using 1 2 3 4 5 6 7 by (simp add: same_constants same_checkApiKey)
qed

theorem files_agree_witness:
  "fst (app_part_000 example_platform env_with_key 2025 (answering (NetworkFailure []))
          (Some (str ''http://localhost:3000'')) Root (Some [])) = Admitted (Some (str ''http://localhost:3000'')) True
   \<and> snd (app_part_000 example_platform env_with_key 2025 (answering (NetworkFailure []))
          (Some (str ''http://localhost:3000'')) Root (Some []))
     = snd (app_server_js example_platform env_with_key 2025 (answering (NetworkFailure []))
          (Some (str ''http://localhost:3000'')) Root (Some []))"
proof -
  have a: "fst (app_part_000 example_platform env_with_key 2025 (answering (NetworkFailure []))
          (Some (str ''http://localhost:3000'')) Root (Some [])) = Admitted (Some (str ''http://localhost:3000'')) True"
    by (simp add: app_part_000_def cors_part_000_def origin_callback_def allowedOrigins_def)
  have "snd (app_part_000 example_platform env_with_key 2025 (answering (NetworkFailure []))
          (Some (str ''http://localhost:3000'')) Root (Some []))
     = snd (app_server_js example_platform env_with_key 2025 (answering (NetworkFailure []))
          (Some (str ''http://localhost:3000'')) Root (Some []))"
    using files_agree [of example_platform env_with_key 2025 "answering (NetworkFailure [])" "Some []"] a
    by (metis admission.distinct(1))
  with a show ?thesis by simp
qed

subsection \<open>The cross-origin policy\<close>

text \<open>
  Claim C5 says that the server lets a request with an \<open>Origin\<close> header through exactly
  when the origin is in the allow-list. \<open>src/server.js\<close> installs \<open>cors()\<close> with no options:
  it lets a request of an origin outside the list through to its route.
\<close>

theorem open_cors_counterexample:
  "fst (app_server_js example_platform env_with_key 2025 (answering (NetworkFailure []))
          (Some (str ''http://evil.example'')) Root (Some [])) = Admitted (Some (str ''*'')) False
   \<and> snd (app_server_js example_platform env_with_key 2025 (answering (NetworkFailure []))
          (Some (str ''http://evil.example'')) Root (Some [])) = ([], get_root)
   \<and> str ''http://evil.example'' \<notin> set allowedOrigins"
  by (simp add: app_server_js_def cors_server_js_def allowedOrigins_def)

text \<open>
  Claim C5, amended. In \<open>part_000\<close>, a request whose \<open>Origin\<close> header is not empty is let
  through, with its origin reflected and credentials allowed, if the origin is in
  \<open>allowedOrigins\<close>; if it is not, the middleware passes the error \<open>Not allowed by CORS\<close> on,
  the route does not run and nothing is sent upstream. A request with no \<open>Origin\<close> header,
  or an empty one, is let through. \<open>src/server.js\<close> lets every request through, with the
  wildcard origin and without credentials.
\<close>

theorem allow_list_of_part_000:
  "(orig \<noteq> [] \<longrightarrow>
      (orig \<in> set allowedOrigins \<longrightarrow> cors_part_000 (Some orig) = Admitted (Some orig) True)
      \<and> (orig \<notin> set allowedOrigins \<longrightarrow>
           app_part_000 P env yr fetch (Some orig) r req
             = (Refused (str ''Not allowed by CORS''), [], error_page (str ''Not allowed by CORS''))))
   \<and> cors_part_000 None = Admitted None True
   \<and> cors_part_000 (Some []) = Admitted None True
   \<and> cors_server_js origin = Admitted (Some (str ''*'')) False"
  by (simp add: cors_part_000_def origin_callback_def app_part_000_def cors_server_js_def)

theorem allow_list_of_part_000_witness:
  "cors_part_000 (Some (str ''http://localhost:3000'')) = Admitted (Some (str ''http://localhost:3000'')) True
   \<and> app_part_000 example_platform env_with_key 2025 (answering (NetworkFailure []))
        (Some (str ''http://evil.example'')) Chat (Some [(str ''messages'', JArr [JNull])])
      = (Refused (str ''Not allowed by CORS''), [], error_page (str ''Not allowed by CORS''))"
  using allow_list_of_part_000 [of "str ''http://localhost:3000''"]
    allow_list_of_part_000 [of "str ''http://evil.example''" example_platform env_with_key 2025
      "answering (NetworkFailure [])" Chat "Some [(str ''messages'', JArr [JNull])]"]
  by (simp add: allowedOrigins_def)

subsection \<open>Objects and lists\<close>

lemma those_list_map:
  "(\<And>x. x \<in> set xs \<Longrightarrow> f x = Some (g x)) \<Longrightarrow> those_list (map f xs) = Some (map g xs)"
  by (induction xs) simp_all

lemma those_list_None:
  "None \<in> set xs \<Longrightarrow> those_list xs = None"
  by (induction xs) (auto split: option.splits)

lemma set_insert_index: "set (insert_index i k v kvs) = insert (k, v) (set kvs)"
proof (induction kvs)
  case Nil
  show ?case by simp
next
  case (Cons p kvs)
  obtain k' v' where p: "p = (k', v')" by (cases p)
  show ?case unfolding p using Cons.IH by (cases "array_index k'") auto
qed

lemma map_of_insert_index:
  "k \<notin> fst ` set kvs \<Longrightarrow> map_of (insert_index i k v kvs) x = (if x = k then Some v else map_of kvs x)"
proof (induction kvs)
  case Nil
  show ?case by simp
next
  case (Cons p kvs)
  obtain k' v' where p: "p = (k', v')" by (cases p)
  from Cons.prems have "k' \<noteq> k" "k \<notin> fst ` set kvs" by (auto simp: p)
  then show ?case unfolding p using Cons.IH by (cases "array_index k'") auto
qed

lemma map_of_replace:
  "map_of (map (\<lambda>(k', v'). if k' = k then (k', v) else (k', v')) kvs) x
     = (if x = k \<and> k \<in> fst ` set kvs then Some v else map_of kvs x)"
proof (induction kvs)
  case Nil
  show ?case by simp
next
  case (Cons p kvs)
  obtain k' v' where p: "p = (k', v')" by (cases p)
  show ?case unfolding p using Cons.IH by (force split: if_splits)
qed

lemma js_put_keys: "fst ` set (js_put k v kvs) = insert k (fst ` set kvs)"
proof (cases "k \<in> fst ` set kvs")
  case True
  have "fst ` set (map (\<lambda>(k', v'). if k' = k then (k', v) else (k', v')) kvs) = fst ` set kvs"
    by (induction kvs) auto
  with True show ?thesis by (auto simp: js_put_def)
next
  case False
  then show ?thesis
    by (cases "array_index k") (simp_all add: js_put_def set_insert_index)
qed

lemma map_of_js_put: "map_of (js_put k v kvs) x = (if x = k then Some v else map_of kvs x)"
proof (cases "k \<in> fst ` set kvs")
  case True
  then show ?thesis by (simp add: js_put_def map_of_replace)
next
  case False
  then have none: "map_of kvs k = None" by (simp add: map_of_eq_None_iff)
  show ?thesis
  proof (cases "array_index k")
    case None
    then show ?thesis using False none by (simp add: js_put_def map_add_def split: option.splits)
  next
    case (Some i)
    then show ?thesis using False by (simp add: js_put_def map_of_insert_index)
  qed
qed

lemma js_put_values: "snd ` set (js_put k v kvs) \<subseteq> insert v (snd ` set kvs)"
proof (cases "k \<in> fst ` set kvs")
  case True
  have "snd ` set (map (\<lambda>(k', v'). if k' = k then (k', v) else (k', v')) kvs) \<subseteq> insert v (snd ` set kvs)"
    by (fastforce split: if_splits)
  with True show ?thesis by (simp add: js_put_def)
next
  case False
  then show ?thesis
    by (cases "array_index k") (auto simp: js_put_def set_insert_index)
qed

lemma js_put_new: "k \<notin> fst ` set kvs \<Longrightarrow> array_index k = None \<Longrightarrow> js_put k v kvs = kvs @ [(k, v)]"
  by (simp add: js_put_def)

lemma id_no_index: "array_index (str ''id'') = None"
  by (simp add: array_index_def str_unfold digit_def)

subsection \<open>What \<open>res.json\<close> sends\<close>

lemma one_is_finite: "\<not> overflows 1 0"
  by (simp add: overflows_def)

lemma index_is_finite: "n < 4294967296 \<Longrightarrow> \<not> overflows (int n + 1) 0"
  by (simp add: overflows_def)

lemma beyond_doubles:
  assumes "m \<noteq> 0" and "309 \<le> e"
  shows "overflows m e"
proof -
  have "(2 :: int) ^ 1024 - 2 ^ 970 \<le> 10 ^ 309" by simp
  also have "(10 :: int) ^ 309 \<le> 10 ^ nat e"
    using assms(2) by (intro power_increasing) auto
  also have "(10 :: int) ^ nat e \<le> \<bar>m\<bar> * 10 ^ nat e"
    using assms(1) by (simp add: mult_le_cancel_right1)
  finally show ?thesis using assms(2) by (simp add: overflows_def)
qed

lemma map_of_wire: "map_of (map (\<lambda>(k, v). (k, wire v)) kvs) x = map_option wire (map_of kvs x)"
  by (induction kvs) auto

lemma keys_wire: "fst ` set (map (\<lambda>(k, v). (k, wire v)) kvs) = fst ` set kvs"
  by (induction kvs) auto

lemma wire_parse_failure_result: "wire (parse_failure_result q yr raw) = parse_failure_result q yr raw"
  by (simp add: parse_failure_result_def one_is_finite)


lemma enumerable_keys: "None \<notin> snd ` set own \<Longrightarrow> fst ` set (enumerable own) = fst ` set own"
  by (induction own rule: enumerable.induct) auto

lemma map_of_enumerable:
  "None \<notin> snd ` set own \<Longrightarrow> map_of own x = Some (Some a) \<Longrightarrow> map_of (enumerable own) x = Some a"
  by (induction own rule: enumerable.induct) (auto split: if_splits)

text \<open>The definitions to unfold when a handler is run on a concrete request.\<close>

lemmas evaluate =
  str_unfold digit_def nat_of_digits_def array_index_def js_put_def rounds_to_zero_def
  js_space_def trim_def fence_def fence_to_end_def strip_fences_def
  split_sign_def number_exponent_def number_of_lexeme_def word_token_def hex_value_def escape_value_def
  number_char_def letter_def json_space_def scan_between_def json_parse_def
  reply_content_def completion_reply_def turn_def answering_def
  checkApiKey_def env_with_key_def env_without_key_def example_platform_def ok_def

lemmas evaluate_populate =
  evaluate post_populate_form_def populate_try_def populate_parse_def read_property_def assign_def
  answer_def object_slot_def object_prototype_names_def Let_def

subsection \<open>Search: identifiers\<close>

lemma with_id_object:
  "with_id i (JObj kvs) =
     Some (JObj (js_put (str ''id'')
        (case map_of kvs (str ''id'') of None \<Rightarrow> JNum (int i + 1) 0
         | Some v \<Rightarrow> if truthy v then v else JNum (int i + 1) 0) kvs))"
  by (simp add: with_id_def)

lemma search_parse_objects:
  assumes "json_parse (trim (strip_fences raw)) = Some (JArr items)"
    and "\<forall>item \<in> set items. \<exists>kvs. item = JObj kvs"
  shows "search_parse (JStr raw) = Some (map (\<lambda>i. the (with_id i (items ! i))) [0..<length items])"
proof -
  have "those_list (map (\<lambda>i. with_id i (items ! i)) [0..<length items])
        = Some (map (\<lambda>i. the (with_id i (items ! i))) [0..<length items])"
  proof (rule those_list_map)
    fix i assume "i \<in> set [0..<length items]"
    then have "items ! i \<in> set items" by simp
    with assms(2) obtain kvs where "items ! i = JObj kvs" by blast
    then show "with_id i (items ! i) = Some (the (with_id i (items ! i)))"
      by (simp add: with_id_object)
  qed
  with assms(1) show ?thesis by (simp add: search_parse_def)
qed

lemma post_search_reply:
  assumes "map_of req (str ''query'') = Some query" and "truthy query"
    and "checkApiKey env = Inr k"
    and "fetch (search_request k query) = Reply st st_text (Inr data)" and "ok st"
  shows "post_search P env yr fetch (Some req) =
     ([search_request k query],
      case search_results P yr query data of
        Inr results \<Rightarrow> \<lparr>status = 200, body = Payload (JObj [(str ''results'', JArr (map wire results))])\<rparr>
      | Inl e \<Rightarrow> \<lparr>status = 500, body = Failure (str ''Failed to fetch search results from OpenRouter.'') (details_of e)\<rparr>)"
  using assms by (simp add: post_search_def search_try_def Let_def split: sum.splits)

text \<open>
  Claim C2 says, last, that an item that already carries an identifier keeps it. The
  callback computes \<open>item.id || index + 1\<close>: an identifier that is falsy (\<open>0\<close>, the empty
  string, \<open>null\<close>, \<open>false\<close>) is replaced. Here the reply is \<open>[{"id":0,"title":"a"}]\<close> and the
  result has the identifier 1.
\<close>

theorem falsy_id_replaced_counterexample:
  "post_search example_platform env_with_key 2025
     (answering (completion_reply (JStr (str ''[{\"id\":0,\"title\":\"a\"}]''))))
     (Some [(str ''query'', JStr (str ''x''))])
   = ([search_request (str ''sk-or-1'') (JStr (str ''x''))],
      \<lparr>status = 200,
       body = Payload (JObj [(str ''results'',
                JArr [JObj [(str ''id'', JNum 1 0), (str ''title'', JStr (str ''a''))]])])\<rparr>)"
  by (simp add: evaluate post_search_def search_try_def search_results_def search_parse_def with_id_def
      one_is_finite Let_def)

text \<open>
  Claim C2, amended. When the search request is valid, the key is set, the upstream call
  succeeds and the content of the reply is a string that, stripped of its fences and
  trimmed, parses as a JSON array of objects, the handler answers 200 with a \<open>results\<close>
  array of the same length and order, where the result at index \<open>i\<close> is the item at index
  \<open>i\<close> with these identifiers: an item without an \<open>id\<close> gets \<open>id: i + 1\<close> as its last
  property; an item whose \<open>id\<close> is truthy keeps it; an item whose \<open>id\<close> is falsy has it
  replaced by \<open>i + 1\<close>. The properties of an item come back as \<open>res.json\<close> writes them, which
  is unchanged but for the numbers too large for a double, written \<open>null\<close>: so is an \<open>id\<close>
  such as \<open>1e999\<close>, which is truthy and kept by the callback.
\<close>

theorem search_ids:
  assumes "map_of req (str ''query'') = Some query" and "truthy query"
    and "checkApiKey env = Inr k"
    and "fetch (search_request k query) = Reply st st_text (Inr data)" and "ok st"
    and "reply_content P data = Content (JStr raw)"
    and "json_parse (trim (strip_fences raw)) = Some (JArr items)"
    and "\<forall>item \<in> set items. \<exists>kvs. item = JObj kvs"
    and "length items < 4294967296"
  shows "\<exists>results.
           post_search P env yr fetch (Some req)
             = ([search_request k query],
                \<lparr>status = 200, body = Payload (JObj [(str ''results'', JArr results)])\<rparr>)
         \<and> length results = length items
         \<and> (\<forall>i kvs. i < length items \<and> items ! i = JObj kvs \<longrightarrow>
               (str ''id'' \<notin> fst ` set kvs \<longrightarrow>
                  results ! i = JObj (map (\<lambda>(name, v). (name, wire v)) kvs @ [(str ''id'', JNum (int i + 1) 0)]))
             \<and> (\<forall>v. map_of kvs (str ''id'') = Some v \<and> truthy v \<longrightarrow>
                  (\<forall>name. get_own (results ! i) name = map_option wire (map_of kvs name)))
             \<and> (\<forall>v. map_of kvs (str ''id'') = Some v \<and> \<not> truthy v \<longrightarrow>
                  (\<forall>name. get_own (results ! i) name
                     = (if name = str ''id'' then Some (JNum (int i + 1) 0)
                        else map_option wire (map_of kvs name)))))
         \<and> wire (JNum 1 999) = JNull \<and> truthy (JNum 1 999)"
proof -
  let ?results = "map (\<lambda>i. the (with_id i (items ! i))) [0..<length items]"
  have parse: "search_parse (JStr raw) = Some ?results"
    using assms(7,8) by (rule search_parse_objects)
  have "search_results P yr query data = Inr ?results"
    using assms(6) parse by (simp add: search_results_def)
  then have resp: "post_search P env yr fetch (Some req)
             = ([search_request k query],
                \<lparr>status = 200, body = Payload (JObj [(str ''results'', JArr (map wire ?results))])\<rparr>)"
    using post_search_reply [where fetch = fetch and P = P and yr = yr, OF assms(1-5)] by simp
  have items: "(str ''id'' \<notin> fst ` set kvs \<longrightarrow>
                  map wire ?results ! i
                    = JObj (map (\<lambda>(name, v). (name, wire v)) kvs @ [(str ''id'', JNum (int i + 1) 0)]))
             \<and> (\<forall>v. map_of kvs (str ''id'') = Some v \<and> truthy v \<longrightarrow>
                  (\<forall>name. get_own (map wire ?results ! i) name = map_option wire (map_of kvs name)))
             \<and> (\<forall>v. map_of kvs (str ''id'') = Some v \<and> \<not> truthy v \<longrightarrow>
                  (\<forall>name. get_own (map wire ?results ! i) name
                     = (if name = str ''id'' then Some (JNum (int i + 1) 0)
                        else map_option wire (map_of kvs name))))"
    if "i < length items" and "items ! i = JObj kvs" for i kvs
  proof -
    have finite: "\<not> overflows (int i + 1) 0"
      using that(1) assms(9) by (intro index_is_finite) simp
    have r: "map wire ?results ! i = wire (JObj (js_put (str ''id'')
        (case map_of kvs (str ''id'') of None \<Rightarrow> JNum (int i + 1) 0
         | Some v \<Rightarrow> if truthy v then v else JNum (int i + 1) 0) kvs))"
      using that by (simp add: with_id_object)
    have a: "map wire ?results ! i
               = JObj (map (\<lambda>(name, v). (name, wire v)) kvs @ [(str ''id'', JNum (int i + 1) 0)])"
      if "str ''id'' \<notin> fst ` set kvs"
    proof -
      from that have "map_of kvs (str ''id'') = None" by (simp add: map_of_eq_None_iff)
      then show ?thesis using that r finite by (simp add: js_put_new id_no_index)
    qed
    have b: "get_own (map wire ?results ! i) name = map_option wire (map_of kvs name)"
      if "map_of kvs (str ''id'') = Some v" and "truthy v" for v name
      using that r by (simp add: map_of_wire map_of_js_put)
    have c: "get_own (map wire ?results ! i) name
               = (if name = str ''id'' then Some (JNum (int i + 1) 0) else map_option wire (map_of kvs name))"
      if "map_of kvs (str ''id'') = Some v" and "\<not> truthy v" for v name
      using that r finite by (simp add: map_of_wire map_of_js_put)
    show ?thesis using a b c by blast
  qed
  have big: "wire (JNum 1 999) = JNull \<and> truthy (JNum 1 999)"
    using beyond_doubles [of 1 999] by (simp add: rounds_to_zero_def)
  show ?thesis
    by (rule exI [of _ "map wire ?results"]) (use resp items big in simp)
qed

theorem search_ids_witness:
  "json_parse (trim (strip_fences (str ''[{\"title\":\"a\"},{\"title\":\"b\"}]'')))
     = Some (JArr [JObj [(str ''title'', JStr (str ''a''))], JObj [(str ''title'', JStr (str ''b''))]])
   \<and> (\<exists>results.
         post_search example_platform env_with_key 2025
           (answering (completion_reply (JStr (str ''[{\"title\":\"a\"},{\"title\":\"b\"}]''))))
           (Some [(str ''query'', JStr (str ''x''))])
           = ([search_request (str ''sk-or-1'') (JStr (str ''x''))],
              \<lparr>status = 200, body = Payload (JObj [(str ''results'', JArr results)])\<rparr>)
         \<and> length results = 2
         \<and> results ! 0 = JObj [(str ''title'', JStr (str ''a'')), (str ''id'', JNum 1 0)]
         \<and> results ! 1 = JObj [(str ''title'', JStr (str ''b'')), (str ''id'', JNum 2 0)])
   \<and> post_search example_platform env_with_key 2025
        (answering (completion_reply (JStr (str ''[{\"id\":1e999,\"t\":1}]''))))
        (Some [(str ''query'', JStr (str ''x''))])
      = ([search_request (str ''sk-or-1'') (JStr (str ''x''))],
         \<lparr>status = 200,
          body = Payload (JObj [(str ''results'',
                   JArr [JObj [(str ''id'', JNull), (str ''t'', JNum 1 0)]])])\<rparr>)"
proof -
  let ?raw = "str ''[{\"title\":\"a\"},{\"title\":\"b\"}]''"
  let ?items = "[JObj [(str ''title'', JStr (str ''a''))], JObj [(str ''title'', JStr (str ''b''))]]"
  have p: "json_parse (trim (strip_fences ?raw)) = Some (JArr ?items)"
    by (simp add: evaluate)
  have c: "reply_content example_platform
             (JObj [(str ''choices'', JArr [JObj [(str ''message'', turn ''assistant'' (JStr ?raw))]])])
           = Content (JStr ?raw)"
    by (simp add: evaluate)
  obtain results where r:
    "post_search example_platform env_with_key 2025 (answering (completion_reply (JStr ?raw)))
           (Some [(str ''query'', JStr (str ''x''))])
           = ([search_request (str ''sk-or-1'') (JStr (str ''x''))],
              \<lparr>status = 200, body = Payload (JObj [(str ''results'', JArr results)])\<rparr>)"
    "length results = length ?items"
    "\<forall>i kvs. i < length ?items \<and> ?items ! i = JObj kvs \<longrightarrow>
               (str ''id'' \<notin> fst ` set kvs \<longrightarrow>
                  results ! i = JObj (map (\<lambda>(name, v). (name, wire v)) kvs @ [(str ''id'', JNum (int i + 1) 0)]))
             \<and> (\<forall>v. map_of kvs (str ''id'') = Some v \<and> truthy v \<longrightarrow>
                  (\<forall>name. get_own (results ! i) name = map_option wire (map_of kvs name)))
             \<and> (\<forall>v. map_of kvs (str ''id'') = Some v \<and> \<not> truthy v \<longrightarrow>
                  (\<forall>name. get_own (results ! i) name
                     = (if name = str ''id'' then Some (JNum (int i + 1) 0)
                        else map_option wire (map_of kvs name))))"
    using search_ids [where req = "[(str ''query'', JStr (str ''x''))]" and query = "JStr (str ''x'')"
        and env = env_with_key and k = "str ''sk-or-1''"
        and fetch = "answering (completion_reply (JStr ?raw))" and st = 200 and st_text = "str ''OK''"
        and data = "JObj [(str ''choices'', JArr [JObj [(str ''message'', turn ''assistant'' (JStr ?raw))]])]"
        and P = example_platform and raw = ?raw and items = ?items and yr = 2025]
      p c
    by (auto simp: checkApiKey_def env_with_key_def answering_def completion_reply_def ok_def)
  from r(3) have "results ! 0 = JObj [(str ''title'', JStr (str ''a'')), (str ''id'', JNum 1 0)]"
    by (auto dest!: spec [of _ 0])
  moreover from r(3) have "results ! 1 = JObj [(str ''title'', JStr (str ''b'')), (str ''id'', JNum 2 0)]"
    by (auto dest!: spec [of _ 1])
  moreover have "post_search example_platform env_with_key 2025
        (answering (completion_reply (JStr (str ''[{\"id\":1e999,\"t\":1}]''))))
        (Some [(str ''query'', JStr (str ''x''))])
      = ([search_request (str ''sk-or-1'') (JStr (str ''x''))],
         \<lparr>status = 200,
          body = Payload (JObj [(str ''results'',
                   JArr [JObj [(str ''id'', JNull), (str ''t'', JNum 1 0)]])])\<rparr>)"
    using beyond_doubles [of 1 999]
    by (simp add: evaluate post_search_def search_try_def search_results_def search_parse_def with_id_def
        one_is_finite Let_def)
  ultimately show ?thesis using p r(1,2) by auto
qed

subsection \<open>Search: the placeholder results\<close>




subsection \<open>The fences\<close>

lemma json_parse_empty: "json_parse [] = None"
  by (simp add: json_parse_def)

lemma json_parse_backtick: "json_parse (96 # s) = None"
  by (simp add: json_parse_def scan_between_def json_space_def digit_def letter_def)

lemma strip_tail_head: "strip_tail s = [] \<or> (s \<noteq> [] \<and> hd (strip_tail s) = hd s)"
  by (cases s) simp_all

lemma trim_prefix: "\<exists>ys. s = dropWhile js_space s \<and> s = trim s @ ys" if "s = [] \<or> \<not> js_space (hd s)"
proof -
  have d: "dropWhile js_space s = s" using that by (cases s) auto
  have "rev s = takeWhile js_space (rev s) @ dropWhile js_space (rev s)" by simp
  then have "s = rev (dropWhile js_space (rev s)) @ rev (takeWhile js_space (rev s))"
    by (metis rev_append rev_rev_ident)
  then show ?thesis using d by (auto simp: trim_def)
qed

lemma trim_head: "trim s = [] \<or> hd (trim s) = hd s" if "s = [] \<or> \<not> js_space (hd s)"
proof (cases "trim s")
  case Nil
  then show ?thesis by simp
next
  case (Cons a l)
  from trim_prefix [OF that] obtain ys where "s = trim s @ ys" by blast
  then have "hd s = hd (trim s @ ys)" by simp
  also have "\<dots> = a" using Cons by simp
  finally show ?thesis using Cons by simp
qed

lemma backtick_no_space: "\<not> js_space 96"
  by (simp add: js_space_def)

lemma unparsable_after_backtick:
  assumes "s = [] \<or> hd s = 96"
  shows "json_parse (trim (strip_tail s)) = None"
proof -
  let ?t = "strip_tail s"
  have t: "?t = [] \<or> hd ?t = 96" using strip_tail_head [of s] assms by auto
  then have "?t = [] \<or> \<not> js_space (hd ?t)" using backtick_no_space by auto
  from trim_head [OF this] t have "trim ?t = [] \<or> hd (trim ?t) = 96" by (auto simp: trim_def)
  then show ?thesis
    by (cases "trim ?t") (auto simp: json_parse_empty json_parse_backtick)
qed

lemma strip_tail_closing:
  assumes "list_all js_space ws"
  shows "strip_tail (xs @ fence @ ws) = xs"
proof (induction xs)
  case Nil
  show ?case using assms by (simp add: fence_def fence_to_end_def)
next
  case (Cons x xs)
  have "96 \<in> set (drop 3 ((x # xs) @ fence @ ws))"
  proof -
    have "(x # xs) @ fence @ ws = ((x # xs) @ [96, 96]) @ 96 # ws"
      by (simp add: fence_def)
    then have "drop 3 ((x # xs) @ fence @ ws) = drop 3 ((x # xs) @ [96, 96]) @ 96 # ws"
      by (simp only: drop_append) simp
    then show ?thesis by simp
  qed
  then have "\<not> list_all js_space (drop 3 ((x # xs) @ fence @ ws))"
    using backtick_no_space by (auto simp: list_all_iff)
  then have "\<not> fence_to_end ((x # xs) @ fence @ ws)" by (simp add: fence_to_end_def)
  then show ?case using Cons.IH by simp
qed

lemma no_tag: "take 4 rest \<noteq> str ''json'' \<Longrightarrow> take 7 (fence @ rest) \<noteq> fence @ str ''json''"
  by (simp add: fence_def)

lemma strip_tagged:
  assumes "list_all js_space ws1" and "list_all js_space ws2" and "mid = [] \<or> \<not> js_space (hd mid)"
  shows "strip_fences (fence @ str ''json'' @ ws1 @ mid @ fence @ ws2) = mid"
proof -
  have "dropWhile js_space (ws1 @ mid @ fence @ ws2) = mid @ fence @ ws2"
  proof -
    have "mid @ fence @ ws2 \<noteq> [] \<and> \<not> js_space (hd (mid @ fence @ ws2))"
      using assms(3) backtick_no_space by (cases mid) (auto simp: fence_def)
    then have "dropWhile js_space (mid @ fence @ ws2) = mid @ fence @ ws2"
      by (cases "mid @ fence @ ws2") auto
    then show ?thesis using assms(1) by (simp add: dropWhile_append list_all_iff)
  qed
  then show ?thesis
    using strip_tail_closing [OF assms(2), of mid]
    by (simp add: strip_fences_def fence_def str_unfold)
qed

text \<open>
  Claim C9. A reply that opens with a plain fence, three backticks not followed by
  \<open>json\<close>, does not parse after the stripping: the search handler builds its placeholder
  result and the form handler answers 500 with the parse failure. When the reply also
  closes with a fence (followed by white space at most), the stripping removes the
  closing fence and leaves the opening one in place. A reply that opens with the tagged
  fence and closes with a fence loses both, and the white space around them.
\<close>

theorem plain_fence_kept:
  assumes "take 4 rest \<noteq> str ''json''"
  shows "json_parse (trim (strip_fences (fence @ rest))) = None
       \<and> (\<forall>mid ws. rest = mid @ fence @ ws \<and> list_all js_space ws \<longrightarrow>
             strip_fences (fence @ rest) = fence @ mid)
       \<and> (\<forall>data st st_text query q. ok st \<and> reply_content P data = Content (JStr (fence @ rest))
               \<and> to_string P query = Some q \<longrightarrow>
             search_try P yr query (Reply st st_text (Inr data))
               = Inr \<lparr>status = 200,
                      body = Payload (JObj [(str ''results'',
                                JArr [parse_failure_result q yr (fence @ rest)])])\<rparr>
           \<and> populate_try P questions (Reply st st_text (Inr data))
               = Inr \<lparr>status = 500,
                      body = Failure (str ''AI response parsing failed. Raw AI output (truncated): ''
                                @ take 200 (fence @ rest) @ str ''...'') NoDetails\<rparr>)
       \<and> (\<forall>ws1 mid ws2. list_all js_space ws1 \<and> list_all js_space ws2 \<and> (mid = [] \<or> \<not> js_space (hd mid)) \<longrightarrow>
             strip_fences (fence @ str ''json'' @ ws1 @ mid @ fence @ ws2) = mid)"
proof -
  have s: "strip_fences (fence @ rest) = strip_tail (fence @ rest)"
    using no_tag [OF assms] by (simp add: strip_fences_def)
  have p: "json_parse (trim (strip_fences (fence @ rest))) = None"
    unfolding s by (rule unparsable_after_backtick) (simp add: fence_def)
  have k: "strip_fences (fence @ rest) = fence @ mid"
    if "rest = mid @ fence @ ws" and "list_all js_space ws" for mid ws
    using strip_tail_closing [OF that(2), of "fence @ mid"] that(1) s by simp
  have r: "search_try P yr query (Reply st st_text (Inr data))
               = Inr \<lparr>status = 200,
                      body = Payload (JObj [(str ''results'',
                                JArr [parse_failure_result q yr (fence @ rest)])])\<rparr>
           \<and> populate_try P questions (Reply st st_text (Inr data))
               = Inr \<lparr>status = 500,
                      body = Failure (str ''AI response parsing failed. Raw AI output (truncated): ''
                                @ take 200 (fence @ rest) @ str ''...'') NoDetails\<rparr>"
    if "ok st" and "reply_content P data = Content (JStr (fence @ rest))" and "to_string P query = Some q"
    for data st st_text query q
    using that p
    by (simp add: search_try_def search_results_def search_parse_def populate_try_def populate_parse_def
        wire_parse_failure_result min_def)
  show ?thesis using p k r strip_tagged by blast
qed

theorem plain_fence_kept_witness:
  "take 4 (str ''[1]```'') \<noteq> str ''json''
   \<and> strip_fences (fence @ str ''[1]```'') = fence @ str ''[1]''
   \<and> json_parse (trim (strip_fences (fence @ str ''[1]```''))) = None
   \<and> search_try example_platform 2025 (JStr (str ''x'')) (completion_reply (JStr (fence @ str ''[1]```'')))
       = Inr \<lparr>status = 200,
              body = Payload (JObj [(str ''results'',
                        JArr [parse_failure_result (str ''x'') 2025 (fence @ str ''[1]```'')])])\<rparr>
   \<and> populate_try example_platform [JStr (str ''A'')] (completion_reply (JStr (fence @ str ''[1]```'')))
       = Inr \<lparr>status = 500,
              body = Failure (str ''AI response parsing failed. Raw AI output (truncated): ''
                        @ take 200 (fence @ str ''[1]```'') @ str ''...'') NoDetails\<rparr>"
proof -
  let ?rest = "str ''[1]```''"
  have h: "take 4 ?rest \<noteq> str ''json''" by (simp add: str_unfold)
  have w: "?rest = str ''[1]'' @ fence @ [] \<and> list_all js_space []" by (simp add: str_unfold fence_def)
  have c: "ok 200 \<and> reply_content example_platform
             (JObj [(str ''choices'', JArr [JObj [(str ''message'', turn ''assistant'' (JStr (fence @ ?rest)))]])])
           = Content (JStr (fence @ ?rest))
           \<and> to_string example_platform (JStr (str ''x'')) = Some (str ''x'')"
    by (simp add: evaluate)
  note t = plain_fence_kept [OF h, of example_platform 2025 "[JStr (str ''A'')]"]
  from t have 1: "json_parse (trim (strip_fences (fence @ ?rest))) = None" by blast
  from t w have 2: "strip_fences (fence @ ?rest) = fence @ str ''[1]''" by blast
  from t c have 3: "search_try example_platform 2025 (JStr (str ''x'')) (completion_reply (JStr (fence @ ?rest)))
       = Inr \<lparr>status = 200,
              body = Payload (JObj [(str ''results'',
                        JArr [parse_failure_result (str ''x'') 2025 (fence @ ?rest)])])\<rparr>
   \<and> populate_try example_platform [JStr (str ''A'')] (completion_reply (JStr (fence @ ?rest)))
       = Inr \<lparr>status = 500,
              body = Failure (str ''AI response parsing failed. Raw AI output (truncated): ''
                        @ take 200 (fence @ ?rest) @ str ''...'') NoDetails\<rparr>"
    unfolding completion_reply_def by blast
  show ?thesis using h 1 2 3 by blast
qed

subsection \<open>Form population: the populated fields\<close>

lemma assign_plain:
  assumes "q \<noteq> str ''__proto__''"
  shows "assign v q p (own, PrototypeOf (JObj [])) = (js_put q (answer v q p) own, PrototypeOf (JObj []))"
  using assms by (simp add: assign_def object_slot_def)

lemma answer_plain:
  assumes "v \<noteq> JNull" and "read_property P v q \<noteq> Some Inherited"
  shows "\<exists>p. read_property P v q = Some p
           \<and> answer v q p = Some (case get_own v q of Some a \<Rightarrow> a | None \<Rightarrow> JStr [])"
  using assms
  by (auto simp: read_property_def answer_def split: option.splits if_splits json.splits)

lemma fill_strings:
  assumes "v \<noteq> JNull"
    and "\<forall>q \<in> set qs. q \<noteq> str ''__proto__'' \<and> read_property P v q \<noteq> Some Inherited"
    and "None \<notin> snd ` set own"
  shows "\<exists>out. fill P v (map JStr qs) (own, PrototypeOf (JObj [])) = Some (out, PrototypeOf (JObj []))
           \<and> fst ` set out = fst ` set own \<union> set qs
           \<and> None \<notin> snd ` set out
           \<and> (\<forall>x. map_of out x
                  = (if x \<in> set qs then Some (Some (case get_own v x of Some a \<Rightarrow> a | None \<Rightarrow> JStr []))
                     else map_of own x))"
  using assms(2,3)
proof (induction qs arbitrary: own)
  case Nil
  then show ?case by simp
next
  case (Cons q qs)
  let ?a = "case get_own v q of Some a \<Rightarrow> a | None \<Rightarrow> JStr []"
  from Cons.prems have q: "q \<noteq> str ''__proto__''" "read_property P v q \<noteq> Some Inherited"
    and rest: "\<forall>q \<in> set qs. q \<noteq> str ''__proto__'' \<and> read_property P v q \<noteq> Some Inherited"
    by auto
  from answer_plain [OF assms(1) q(2)]
  obtain p where p: "read_property P v q = Some p" "answer v q p = Some ?a" by blast
  have step: "fill P v (map JStr (q # qs)) (own, PrototypeOf (JObj []))
      = fill P v (map JStr qs) (js_put q (Some ?a) own, PrototypeOf (JObj []))"
    using p by (simp add: assign_plain [OF q(1)])
  have some: "None \<notin> snd ` set (js_put q (Some ?a) own)"
    using js_put_values [of q "Some ?a" own] Cons.prems(2) by auto
  from Cons.IH [OF rest some]
  obtain out where out: "fill P v (map JStr qs) (js_put q (Some ?a) own, PrototypeOf (JObj []))
        = Some (out, PrototypeOf (JObj []))"
    "fst ` set out = fst ` set (js_put q (Some ?a) own) \<union> set qs"
    "None \<notin> snd ` set out"
    "\<forall>x. map_of out x
        = (if x \<in> set qs then Some (Some (case get_own v x of Some a \<Rightarrow> a | None \<Rightarrow> JStr []))
           else map_of (js_put q (Some ?a) own) x)"
    by blast
  show ?case
  proof (intro exI conjI)
    show "fill P v (map JStr (q # qs)) (own, PrototypeOf (JObj [])) = Some (out, PrototypeOf (JObj []))"
      using step out(1) by simp
    show "fst ` set out = fst ` set own \<union> set (q # qs)" using out(2) by (simp add: js_put_keys)
    show "None \<notin> snd ` set out" by (rule out(3))
    show "\<forall>x. map_of out x
        = (if x \<in> set (q # qs) then Some (Some (case get_own v x of Some a \<Rightarrow> a | None \<Rightarrow> JStr []))
           else map_of own x)"
      using out(4) by (simp add: map_of_js_put)
  qed
qed

lemma fill_null: "fill P JNull (JStr q # qs) final = None"
  by (simp add: read_property_def)

lemma to_string_strings: "those_list (map (to_string P) (map JStr qs)) = Some qs"
  by (induction qs) simp_all

text \<open>
  Claim C1 says that whenever the content of the reply parses as JSON, the populated
  fields have exactly the questions as keys. The content \<open>null\<close> parses, and reading a
  property of it throws: the handler answers 500. And a question that names a member of
  \<open>Object.prototype\<close>, here \<open>toString\<close> with the reply \<open>{}\<close>, reads the inherited function, not
  \<open>undefined\<close>: the response has no field for it.
\<close>

theorem populated_fields_counterexample:
  "post_populate_form example_platform env_with_key (answering (completion_reply (JStr (str ''null''))))
       (Some [(str ''sourceText'', JStr (str ''text'')), (str ''questions'', JArr [JStr (str ''A'')])])
     = ([populate_request (str ''sk-or-1'') (str ''text'') [str ''A'']],
        \<lparr>status = 500,
         body = Failure (str ''AI response parsing failed. Raw AI output (truncated): null...'') NoDetails\<rparr>)
   \<and> post_populate_form example_platform env_with_key (answering (completion_reply (JStr (str ''{}''))))
       (Some [(str ''sourceText'', JStr (str ''text'')), (str ''questions'', JArr [JStr (str ''toString'')])])
     = ([populate_request (str ''sk-or-1'') (str ''text'') [str ''toString'']],
        \<lparr>status = 200, body = Payload (JObj [(str ''populated_fields'', JObj [])])\<rparr>)"
  by (simp add: evaluate_populate)

text \<open>
  Claim C1, amended. The request is valid (the source text a non-empty string, the
  questions a non-empty list of strings), the key is set, the upstream call succeeds
  and the content of the reply is a string that, stripped of its fences and trimmed,
  parses as a JSON value. If the value is \<open>null\<close>, the handler answers 500 with the parse
  failure. If it is not \<open>null\<close>, no question is \<open>__proto__\<close> and none names an inherited member
  of the parsed value, the handler answers 200 with populated fields whose keys are
  exactly the questions, each mapped to the value the parsed reply has for it, as
  \<open>res.json\<close> writes it (unchanged, but for the numbers too large for a double, written
  \<open>null\<close>), or to the empty string when it has none; no other key of the reply appears.
  For the questions \<open>A\<close>, \<open>B\<close> and the reply \<open>{"A":"x"}\<close> the fields are \<open>{"A":"x","B":""}\<close>.
\<close>

theorem populated_fields:
  assumes "map_of req (str ''sourceText'') = Some (JStr src)" and "src \<noteq> []"
    and "map_of req (str ''questions'') = Some (JArr (map JStr qs))" and "qs \<noteq> []"
    and "checkApiKey env = Inr k"
    and "fetch (populate_request k src qs) = Reply st st_text (Inr data)" and "ok st"
    and "reply_content P data = Content (JStr raw)"
    and "json_parse (trim (strip_fences raw)) = Some v"
  shows "(v = JNull \<longrightarrow>
            post_populate_form P env fetch (Some req)
              = ([populate_request k src qs],
                 \<lparr>status = 500,
                  body = Failure (str ''AI response parsing failed. Raw AI output (truncated): ''
                            @ take 200 raw @ str ''...'') NoDetails\<rparr>))
       \<and> (v \<noteq> JNull \<and> (\<forall>q \<in> set qs. q \<noteq> str ''__proto__'' \<and> read_property P v q \<noteq> Some Inherited) \<longrightarrow>
            (\<exists>out.
               post_populate_form P env fetch (Some req)
                 = ([populate_request k src qs],
                    \<lparr>status = 200, body = Payload (JObj [(str ''populated_fields'', JObj out)])\<rparr>)
             \<and> fst ` set out = set qs
             \<and> (\<forall>q \<in> set qs.
                   map_of out q = Some (wire (case get_own v q of Some a \<Rightarrow> a | None \<Rightarrow> JStr [])))))"
proof -
  obtain q qs' where qs: "qs = q # qs'" using assms(4) by (cases qs) auto
  have lines: "those_list (map (to_string P) (map JStr qs)) = Some qs" by (rule to_string_strings)
  have sent: "post_populate_form P env fetch (Some req)
      = ([populate_request k src qs],
         case populate_try P (map JStr qs) (Reply st st_text (Inr data)) of
           Inr sent \<Rightarrow> sent
         | Inl e \<Rightarrow> \<lparr>status = 500,
                     body = Failure (str ''Failed to populate form from OpenRouter.'') (details_of e)\<rparr>)"
    using assms(1,2,3,5,6) lines unfolding qs
    by (simp add: post_populate_form_def Let_def)
  have null: "post_populate_form P env fetch (Some req)
              = ([populate_request k src qs],
                 \<lparr>status = 500,
                  body = Failure (str ''AI response parsing failed. Raw AI output (truncated): ''
                            @ take 200 raw @ str ''...'') NoDetails\<rparr>)"
    if "v = JNull"
  proof -
    have "populate_parse P (map JStr qs) (JStr raw) = None"
      using assms(9) that unfolding qs by (simp add: populate_parse_def read_property_def)
    then have "populate_try P (map JStr qs) (Reply st st_text (Inr data))
      = Inr \<lparr>status = 500,
             body = Failure (str ''AI response parsing failed. Raw AI output (truncated): ''
                       @ take 200 raw @ str ''...'') NoDetails\<rparr>"
      using assms(7,8) by (simp add: populate_try_def min_def)
    then show ?thesis using sent by simp
  qed
  have fields: "\<exists>out.
               post_populate_form P env fetch (Some req)
                 = ([populate_request k src qs],
                    \<lparr>status = 200, body = Payload (JObj [(str ''populated_fields'', JObj out)])\<rparr>)
             \<and> fst ` set out = set qs
             \<and> (\<forall>q \<in> set qs.
                   map_of out q = Some (wire (case get_own v q of Some a \<Rightarrow> a | None \<Rightarrow> JStr [])))"
    if "v \<noteq> JNull" and "\<forall>q \<in> set qs. q \<noteq> str ''__proto__'' \<and> read_property P v q \<noteq> Some Inherited"
  proof -
    from fill_strings [OF that, of "[]"]
    obtain own where own: "fill P v (map JStr qs) ([], PrototypeOf (JObj [])) = Some (own, PrototypeOf (JObj []))"
      "fst ` set own = set qs" "None \<notin> snd ` set own"
      "\<forall>x. map_of own x = (if x \<in> set qs then Some (Some (case get_own v x of Some a \<Rightarrow> a | None \<Rightarrow> JStr [])) else None)"
      by auto
    let ?out = "map (\<lambda>(k, x). (k, wire x)) (enumerable own)"
    have parse: "populate_parse P (map JStr qs) (JStr raw) = Some own"
      using assms(9) own(1) by (simp add: populate_parse_def)
    have attempt: "populate_try P (map JStr qs) (Reply st st_text (Inr data))
      = Inr \<lparr>status = 200, body = Payload (JObj [(str ''populated_fields'', JObj ?out)])\<rparr>"
      using assms(7,8) parse by (simp add: populate_try_def)
    have keys: "fst ` set ?out = set qs"
      unfolding keys_wire using own(2,3) by (simp add: enumerable_keys)
    have answers: "map_of ?out q = Some (wire (case get_own v q of Some a \<Rightarrow> a | None \<Rightarrow> JStr []))"
      if "q \<in> set qs" for q
    proof -
      from that own(4) have "map_of own q = Some (Some (case get_own v q of Some a \<Rightarrow> a | None \<Rightarrow> JStr []))"
        by simp
      from map_of_enumerable [OF own(3) this] show ?thesis by (simp add: map_of_wire)
    qed
    show ?thesis
      by (rule exI [of _ ?out]) (use sent attempt keys answers in simp)
  qed
  show ?thesis using null fields by blast
qed

theorem populated_fields_witness:
  "post_populate_form example_platform env_with_key (answering (completion_reply (JStr (str ''{\"A\":\"x\"}''))))
       (Some [(str ''sourceText'', JStr (str ''text'')),
              (str ''questions'', JArr [JStr (str ''A''), JStr (str ''B'')])])
     = ([populate_request (str ''sk-or-1'') (str ''text'') [str ''A'', str ''B'']],
        \<lparr>status = 200,
         body = Payload (JObj [(str ''populated_fields'',
                   JObj [(str ''A'', JStr (str ''x'')), (str ''B'', JStr [])])])\<rparr>)
   \<and> (\<exists>out.
         post_populate_form example_platform env_with_key
           (answering (completion_reply (JStr (str ''{\"A\":1e400,\"C\":\"y\"}''))))
           (Some [(str ''sourceText'', JStr (str ''text'')),
                  (str ''questions'', JArr [JStr (str ''A''), JStr (str ''B'')])])
           = ([populate_request (str ''sk-or-1'') (str ''text'') [str ''A'', str ''B'']],
              \<lparr>status = 200, body = Payload (JObj [(str ''populated_fields'', JObj out)])\<rparr>)
         \<and> fst ` set out = {str ''A'', str ''B''}
         \<and> map_of out (str ''A'') = Some JNull
         \<and> map_of out (str ''B'') = Some (JStr [])
         \<and> map_of out (str ''C'') = None)"
proof -
  let ?req = "[(str ''sourceText'', JStr (str ''text'')), (str ''questions'', JArr [JStr (str ''A''), JStr (str ''B'')])]"
  let ?raw = "str ''{\"A\":1e400,\"C\":\"y\"}''"
  let ?v = "JObj [(str ''A'', JNum 1 400), (str ''C'', JStr (str ''y''))]"
  have first: "post_populate_form example_platform env_with_key
       (answering (completion_reply (JStr (str ''{\"A\":\"x\"}''))))
       (Some ?req)
     = ([populate_request (str ''sk-or-1'') (str ''text'') [str ''A'', str ''B'']],
        \<lparr>status = 200,
         body = Payload (JObj [(str ''populated_fields'',
                   JObj [(str ''A'', JStr (str ''x'')), (str ''B'', JStr [])])])\<rparr>)"
    by (simp add: evaluate_populate)
  have h: "map_of ?req (str ''sourceText'') = Some (JStr (str ''text''))" "str ''text'' \<noteq> []"
    "map_of ?req (str ''questions'') = Some (JArr (map JStr [str ''A'', str ''B'']))"
    "[str ''A'', str ''B''] \<noteq> []" "checkApiKey env_with_key = Inr (str ''sk-or-1'')"
    "answering (completion_reply (JStr ?raw)) (populate_request (str ''sk-or-1'') (str ''text'') [str ''A'', str ''B''])
       = Reply 200 (str ''OK'') (Inr (JObj [(str ''choices'', JArr [JObj [(str ''message'', turn ''assistant'' (JStr ?raw))]])]))"
    "ok 200"
    "reply_content example_platform (JObj [(str ''choices'', JArr [JObj [(str ''message'', turn ''assistant'' (JStr ?raw))]])])
       = Content (JStr ?raw)"
    "json_parse (trim (strip_fences ?raw)) = Some ?v"
    by (simp_all add: evaluate)
  have g: "?v \<noteq> JNull
    \<and> (\<forall>q \<in> set [str ''A'', str ''B'']. q \<noteq> str ''__proto__'' \<and> read_property example_platform ?v q \<noteq> Some Inherited)"
    by (simp add: evaluate read_property_def object_prototype_names_def)
  from populated_fields [where fetch = "answering (completion_reply (JStr ?raw))", OF h] g
  obtain out where out:
    "post_populate_form example_platform env_with_key (answering (completion_reply (JStr ?raw))) (Some ?req)
           = ([populate_request (str ''sk-or-1'') (str ''text'') [str ''A'', str ''B'']],
              \<lparr>status = 200, body = Payload (JObj [(str ''populated_fields'', JObj out)])\<rparr>)"
    "fst ` set out = set [str ''A'', str ''B'']"
    "\<forall>q \<in> set [str ''A'', str ''B''].
        map_of out q = Some (wire (case get_own ?v q of Some a \<Rightarrow> a | None \<Rightarrow> JStr []))"
    by blast
  from out(2) have "str ''C'' \<notin> fst ` set out" by simp
  then have c: "map_of out (str ''C'') = None" by (simp add: map_of_eq_None_iff)
  from out(3) beyond_doubles [of 1 400]
  have ab: "map_of out (str ''A'') = Some JNull" "map_of out (str ''B'') = Some (JStr [])"
    by simp_all
  show ?thesis using first out(1,2) ab c by auto
qed

end
